theory Spec2Isabelle
  imports Complex_Main
begin

section \<open>Data model\<close>

text \<open>
  The two components are React function components written in TypeScript:
  \<^verbatim>\<open>ProductDetails\<close> (the detail view) and \<^verbatim>\<open>ProductActionsModal\<close> (the actions
  menu). JavaScript numbers are modelled as reals: arithmetic is exact, and the values
  \<^verbatim>\<open>NaN\<close>, \<^verbatim>\<open>Infinity\<close> and \<^verbatim>\<open>undefined\<close> are outside the type, as the declared
  type \<^verbatim>\<open>number\<close> of the fields says. An asynchronous handler is modelled as one
  run-to-completion step: what another event does while a handler waits for the store
  is not modelled.
\<close>

text \<open>
  A field written as \<^verbatim>\<open>serverTimestamp()\<close> holds a sentinel that the store replaces by
  its own time when it commits the write.
\<close>

datatype time_value = ServerTimestamp | Time nat

text \<open>
  Modelled from the spec: the declaration of \<^verbatim>\<open>Product\<close> (types/product) is not among
  the sources. The fields are the ones the two components read and write and the spec
  lists: identifier, name, category, quantity, unit label, average purchase price,
  derived total purchase price, optional image reference, optional minimum-quantity
  threshold, update timestamp.
\<close>

record product =
  pid :: string
  name :: string
  category :: string
  quantity :: real
  unit_label :: string
  averagePurchasePrice :: real
  totalPurchasePrice :: real
  image_ref :: "string option"
  minQuantity :: "real option"
  updatedAt :: time_value

text \<open>The object passed to \<^verbatim>\<open>updateDoc\<close>: the four fields both save handlers write.\<close>

record product_patch =
  patch_quantity :: real
  patch_averagePurchasePrice :: real
  patch_totalPurchasePrice :: real
  patch_updatedAt :: time_value

datatype direction = MoveIn | MoveOut

text \<open>
  The two literal texts of a movement record are Cyrillic in the source:
  \<open>ManualQuantityAdjustment\<close> is the description (line 100 of ProductDetails.tsx,
  "manual adjustment of the quantity") and \<open>MainWarehouse\<close> the warehouse label
  (line 101, "main warehouse").
\<close>

datatype movement_description = ManualQuantityAdjustment

datatype warehouse_label = MainWarehouse

text \<open>The object passed to \<^verbatim>\<open>setDoc\<close> (lines 93 to 106 of ProductDetails.tsx).\<close>

record movement =
  mv_productId :: string
  mv_type :: direction
  mv_quantity :: real
  mv_price :: real
  mv_totalPrice :: real
  mv_date :: time_value
  mv_description :: movement_description
  mv_warehouse :: warehouse_label
  mv_previousQuantity :: real
  mv_newQuantity :: real
  mv_previousAveragePrice :: real
  mv_newAveragePrice :: real

text \<open>
  The notification texts, Cyrillic in the source. \<open>PD_\<close> marks the detail view,
  \<open>AM_\<close> the actions menu:
  \<^item> \<open>PD_QuantityNegative\<close> (line 60): the quantity of the product cannot be negative;
  \<^item> \<open>PD_PriceNegative\<close> (line 65): the price of the product cannot be negative;
  \<^item> \<open>PD_QuantityUpdated\<close> (line 109): the quantity was updated;
  \<^item> \<open>PD_UpdateFailed\<close> (line 112): error while updating the quantity;
  \<^item> \<open>AM_QuantityNegative\<close> (line 53), \<open>AM_PriceNegative\<close> (line 58),
    \<open>AM_ProductUpdated\<close> (line 70), \<open>AM_UpdateFailed\<close> (line 74): the same four
    for the menu.
\<close>

datatype message =
    PD_QuantityNegative | PD_PriceNegative | PD_QuantityUpdated | PD_UpdateFailed
  | AM_QuantityNegative | AM_PriceNegative | AM_ProductUpdated | AM_UpdateFailed

datatype nav_target = Path string | Back

text \<open>
  Everything a handler does to the outside, in the order of the calls: the calls of the
  store's client, the notifications, the console, the router and the parent's
  \<^verbatim>\<open>onClose\<close>. The payload of a navigation is the \<^verbatim>\<open>addedProduct\<close> object.
\<close>

datatype effect =
    CallGetDoc string
  | CallUpdateDoc string product_patch
  | CallSetDoc movement
  | SuccessNotification message
  | ErrorNotification message
  | ConsoleError string
  | Navigate nav_target "(product \<times> real) option"
  | OnClose

text \<open>
  The outside world: the collection \<^verbatim>\<open>products\<close> keyed by document id, the collection
  \<^verbatim>\<open>productMovements\<close> (documents with generated ids, kept in the order they were
  added) and the effects so far.
\<close>

record world =
  products :: "string \<rightharpoonup> product"
  productMovements :: "movement list"
  effects :: "effect list"

section \<open>The store's client\<close>

text \<open>
  The client library is not part of the repository. A write either resolves, at a time
  the server chooses, or rejects; which of the two is an input of the model. An update
  of a document that does not exist rejects as well.
\<close>

datatype outcome = Resolves nat | Rejects

datatype store_error = Unavailable | NotFound

definition emit :: "effect \<Rightarrow> world \<Rightarrow> world" where
  "emit e w = w\<lparr>effects := effects w @ [e]\<rparr>"

definition stamp :: "nat \<Rightarrow> time_value \<Rightarrow> time_value" where
  "stamp t v = (case v of ServerTimestamp \<Rightarrow> Time t | Time u \<Rightarrow> Time u)"

definition apply_patch :: "nat \<Rightarrow> product_patch \<Rightarrow> product \<Rightarrow> product" where
  "apply_patch t patch d =
     d\<lparr>quantity := patch_quantity patch,
       averagePurchasePrice := patch_averagePurchasePrice patch,
       totalPurchasePrice := patch_totalPurchasePrice patch,
       updatedAt := stamp t (patch_updatedAt patch)\<rparr>"

definition getDoc :: "string \<Rightarrow> bool \<Rightarrow> world \<Rightarrow> (store_error + product option) \<times> world" where
  "getDoc i throws w =
     (let w1 = emit (CallGetDoc i) w
      in if throws then (Inl Unavailable, w1) else (Inr (products w i), w1))"

definition updateDoc :: "string \<Rightarrow> product_patch \<Rightarrow> outcome \<Rightarrow> world \<Rightarrow> (store_error + unit) \<times> world" where
  "updateDoc i patch out w =
     (let w1 = emit (CallUpdateDoc i patch) w
      in case out of
           Rejects \<Rightarrow> (Inl Unavailable, w1)
         | Resolves t \<Rightarrow>
             (case products w i of
                None \<Rightarrow> (Inl NotFound, w1)
              | Some d \<Rightarrow> (Inr (), w1\<lparr>products := (products w1)(i \<mapsto> apply_patch t patch d)\<rparr>)))"

definition setDoc :: "movement \<Rightarrow> outcome \<Rightarrow> world \<Rightarrow> (store_error + unit) \<times> world" where
  "setDoc m out w =
     (let w1 = emit (CallSetDoc m) w
      in case out of
           Rejects \<Rightarrow> (Inl Unavailable, w1)
         | Resolves t \<Rightarrow>
             (Inr (), w1\<lparr>productMovements := productMovements w1 @ [m\<lparr>mv_date := stamp t (mv_date m)\<rparr>]\<rparr>))"

definition showSuccessNotification :: "message \<Rightarrow> world \<Rightarrow> world" where
  "showSuccessNotification msg = emit (SuccessNotification msg)"

definition showErrorNotification :: "message \<Rightarrow> world \<Rightarrow> world" where
  "showErrorNotification msg = emit (ErrorNotification msg)"

definition console_error :: "string \<Rightarrow> world \<Rightarrow> world" where
  "console_error tag = emit (ConsoleError tag)"

definition navigate :: "nav_target \<Rightarrow> (product \<times> real) option \<Rightarrow> world \<Rightarrow> world" where
  "navigate target payload = emit (Navigate target payload)"

text \<open>The JavaScript expression \<^verbatim>\<open>x || 0\<close> on a number.\<close>

definition or_zero :: "real \<Rightarrow> real" where
  "or_zero x = (if x = 0 then 0 else x)"

text \<open>
  \<^verbatim>\<open>Number(e.target.value || 0)\<close> and \<^verbatim>\<open>Number(e.target.value)\<close> on the value of a
  numeric input, which is the empty string (\<open>None\<close>) or a number: both give 0 for the
  empty string.
\<close>

definition number_of_input :: "real option \<Rightarrow> real" where
  "number_of_input v = (case v of None \<Rightarrow> 0 | Some x \<Rightarrow> x)"

section \<open>The detail view (ProductDetails.tsx)\<close>

datatype code_kind = Barcode | Qrcode

record pd_state =
  pd_id :: "string option"
  pd_product :: "product option"
  pd_showHistory :: bool
  pd_activeCode :: code_kind
  pd_loading :: bool
  pd_isEditing :: bool
  pd_editedQuantity :: real
  pd_editedPrice :: real
  pd_showPasswordPrompt :: bool
  pd_isFocused :: bool

text \<open>The state at mount (lines 15 to 23); \<open>i\<close> is the route parameter.\<close>

definition pd_init :: "string option \<Rightarrow> pd_state" where
  "pd_init i =
     \<lparr>pd_id = i, pd_product = None, pd_showHistory = False, pd_activeCode = Qrcode,
      pd_loading = True, pd_isEditing = False, pd_editedQuantity = 0, pd_editedPrice = 0,
      pd_showPasswordPrompt = False, pd_isFocused = False\<rparr>"

text \<open>
  \<^verbatim>\<open>loadProduct\<close> (lines 26 to 42); \<open>throws\<close> says whether the read throws. The
  stored document has no id field of its own, so the loaded product carries the id of
  the document.
\<close>

definition pd_loadProduct :: "bool \<Rightarrow> pd_state \<times> world \<Rightarrow> pd_state \<times> world" where
  "pd_loadProduct throws = (\<lambda>(s, w).
     case pd_id s of
       None \<Rightarrow> (s, w)
     | Some i \<Rightarrow>
         (case getDoc i throws w of
            (Inl err, w1) \<Rightarrow>
              (s\<lparr>pd_loading := False\<rparr>, console_error ''Error loading product:'' w1)
          | (Inr None, w1) \<Rightarrow> (s\<lparr>pd_loading := False\<rparr>, w1)
          | (Inr (Some d), w1) \<Rightarrow>
              (let productData = d\<lparr>pid := i\<rparr>
               in (s\<lparr>pd_product := Some productData,
                     pd_editedQuantity := or_zero (quantity productData),
                     pd_editedPrice := or_zero (averagePurchasePrice productData),
                     pd_loading := False\<rparr>, w1))))"

definition pd_handleEditClick :: "pd_state \<Rightarrow> pd_state" where
  "pd_handleEditClick s = s\<lparr>pd_showPasswordPrompt := True\<rparr>"

definition pd_handlePasswordSuccess :: "pd_state \<Rightarrow> pd_state" where
  "pd_handlePasswordSuccess s = s\<lparr>pd_showPasswordPrompt := False, pd_isEditing := True\<rparr>"

text \<open>
  \<^verbatim>\<open>handleSave\<close> (lines 56 to 114). \<open>o1\<close> is the outcome of the update of the product,
  \<open>o2\<close> the outcome of the write of the movement record. The \<^verbatim>\<open>catch\<close> block is the
  pair of calls after a rejected write.
\<close>

definition pd_handleSave :: "outcome \<Rightarrow> outcome \<Rightarrow> pd_state \<times> world \<Rightarrow> pd_state \<times> world" where
  "pd_handleSave o1 o2 = (\<lambda>(s, w).
     case pd_product s of
       None \<Rightarrow> (s, w)
     | Some p \<Rightarrow>
         if pd_editedQuantity s < 0 then (s, showErrorNotification PD_QuantityNegative w)
         else if pd_editedPrice s < 0 then (s, showErrorNotification PD_PriceNegative w)
         else
           (let previousQuantity = quantity p;
                previousPrice = averagePurchasePrice p
            in case updateDoc (pid p)
                   \<lparr>patch_quantity = pd_editedQuantity s,
                    patch_averagePurchasePrice = pd_editedPrice s,
                    patch_totalPurchasePrice = pd_editedQuantity s * pd_editedPrice s,
                    patch_updatedAt = ServerTimestamp\<rparr> o1 w of
                 (Inl err, w1) \<Rightarrow>
                   (s, showErrorNotification PD_UpdateFailed
                         (console_error ''Error updating product:'' w1))
               | (Inr u, w1) \<Rightarrow>
                   (let s1 = s\<lparr>pd_product := Some (p\<lparr>quantity := pd_editedQuantity s,
                                   averagePurchasePrice := pd_editedPrice s,
                                   totalPurchasePrice := pd_editedQuantity s * pd_editedPrice s\<rparr>)\<rparr>;
                        isIncrease = (pd_editedQuantity s > previousQuantity)
                    in case setDoc
                           \<lparr>mv_productId = pid p,
                            mv_type = (if isIncrease then MoveIn else MoveOut),
                            mv_quantity = \<bar>pd_editedQuantity s - previousQuantity\<bar>,
                            mv_price = pd_editedPrice s,
                            mv_totalPrice = \<bar>pd_editedQuantity s - previousQuantity\<bar> * pd_editedPrice s,
                            mv_date = ServerTimestamp,
                            mv_description = ManualQuantityAdjustment,
                            mv_warehouse = MainWarehouse,
                            mv_previousQuantity = previousQuantity,
                            mv_newQuantity = pd_editedQuantity s,
                            mv_previousAveragePrice = previousPrice,
                            mv_newAveragePrice = pd_editedPrice s\<rparr> o2 w1 of
                         (Inl err, w2) \<Rightarrow>
                           (s1, showErrorNotification PD_UpdateFailed
                                  (console_error ''Error updating product:'' w2))
                       | (Inr u2, w2) \<Rightarrow>
                           (s1\<lparr>pd_isEditing := False\<rparr>,
                            showSuccessNotification PD_QuantityUpdated w2))))"

text \<open>What the component renders (lines 116 to 140).\<close>

datatype pd_screen = Spinner | NotFoundScreen | DetailsScreen

definition pd_render :: "pd_state \<Rightarrow> pd_screen" where
  "pd_render s =
     (if pd_loading s then Spinner
      else if pd_product s = None then NotFoundScreen
      else DetailsScreen)"

text \<open>The total shown on the details screen (line 218).\<close>

definition pd_displayedTotal :: "product \<Rightarrow> real" where
  "pd_displayedTotal p = quantity p * or_zero (averagePurchasePrice p)"

text \<open>
  The events of the detail view: the effect that loads the product, and one event for
  each handler in the markup. The password prompt is a component of its own, not among
  the sources; of it the view sees the two callbacks it passes, \<^verbatim>\<open>onSuccess\<close> and
  \<^verbatim>\<open>onClose\<close>.
\<close>

datatype pd_event =
    PD_Load bool
  | PD_ClickEdit
  | PD_PasswordSuccess
  | PD_PasswordClose
  | PD_ChangeQuantity "real option"
  | PD_ChangePrice "real option"
  | PD_Focus
  | PD_Blur
  | PD_ClickSave outcome outcome
  | PD_ClickCancel
  | PD_ClickCode code_kind
  | PD_ShowHistory
  | PD_CloseHistory
  | PD_ClickBack
  | PD_ClickBackToList

text \<open>
  An event can happen only when its control is on the screen: the edit button when the
  view is not editing, the two inputs and the save and cancel buttons when it is (lines
  181 to 245), the prompt's callbacks when the prompt is rendered (line 310).
\<close>

definition pd_enabled :: "pd_state \<Rightarrow> pd_event \<Rightarrow> bool" where
  "pd_enabled s e =
     (case e of
        PD_Load throws \<Rightarrow> True
      | PD_ClickBackToList \<Rightarrow> pd_render s = NotFoundScreen
      | PD_ClickEdit \<Rightarrow> pd_render s = DetailsScreen \<and> \<not> pd_isEditing s
      | PD_PasswordSuccess \<Rightarrow> pd_render s = DetailsScreen \<and> pd_showPasswordPrompt s
      | PD_PasswordClose \<Rightarrow> pd_render s = DetailsScreen \<and> pd_showPasswordPrompt s
      | PD_ChangeQuantity v \<Rightarrow> pd_render s = DetailsScreen \<and> pd_isEditing s
      | PD_ChangePrice v \<Rightarrow> pd_render s = DetailsScreen \<and> pd_isEditing s
      | PD_Focus \<Rightarrow> pd_render s = DetailsScreen \<and> pd_isEditing s
      | PD_Blur \<Rightarrow> pd_render s = DetailsScreen \<and> pd_isEditing s
      | PD_ClickSave o1 o2 \<Rightarrow> pd_render s = DetailsScreen \<and> pd_isEditing s
      | PD_ClickCancel \<Rightarrow> pd_render s = DetailsScreen \<and> pd_isEditing s
      | PD_ClickCode c \<Rightarrow> pd_render s = DetailsScreen
      | PD_ShowHistory \<Rightarrow> pd_render s = DetailsScreen
      | PD_CloseHistory \<Rightarrow> pd_render s = DetailsScreen \<and> pd_showHistory s
      | PD_ClickBack \<Rightarrow> pd_render s = DetailsScreen)"

definition pd_handle :: "pd_event \<Rightarrow> pd_state \<times> world \<Rightarrow> pd_state \<times> world" where
  "pd_handle e = (\<lambda>(s, w).
     case e of
       PD_Load throws \<Rightarrow> pd_loadProduct throws (s, w)
     | PD_ClickEdit \<Rightarrow> (pd_handleEditClick s, w)
     | PD_PasswordSuccess \<Rightarrow> (pd_handlePasswordSuccess s, w)
     | PD_PasswordClose \<Rightarrow> (s\<lparr>pd_showPasswordPrompt := False\<rparr>, w)
     | PD_ChangeQuantity v \<Rightarrow> (s\<lparr>pd_editedQuantity := number_of_input v\<rparr>, w)
     | PD_ChangePrice v \<Rightarrow> (s\<lparr>pd_editedPrice := number_of_input v\<rparr>, w)
     | PD_Focus \<Rightarrow> (s\<lparr>pd_isFocused := True\<rparr>, w)
     | PD_Blur \<Rightarrow> (s\<lparr>pd_isFocused := False\<rparr>, w)
     | PD_ClickSave o1 o2 \<Rightarrow> pd_handleSave o1 o2 (s, w)
     | PD_ClickCancel \<Rightarrow> (s\<lparr>pd_isEditing := False\<rparr>, w)
     | PD_ClickCode c \<Rightarrow> (s\<lparr>pd_activeCode := c\<rparr>, w)
     | PD_ShowHistory \<Rightarrow> (s\<lparr>pd_showHistory := True\<rparr>, w)
     | PD_CloseHistory \<Rightarrow> (s\<lparr>pd_showHistory := False\<rparr>, w)
     | PD_ClickBack \<Rightarrow> (s, navigate Back None w)
     | PD_ClickBackToList \<Rightarrow> (s, navigate (Path ''/warehouse/products'') None w))"

definition pd_step :: "pd_state \<times> world \<Rightarrow> pd_event \<Rightarrow> pd_state \<times> world" where
  "pd_step c e = (if pd_enabled (fst c) e then pd_handle e c else c)"

definition pd_run :: "pd_state \<times> world \<Rightarrow> pd_event list \<Rightarrow> pd_state \<times> world" where
  "pd_run c es = foldl pd_step c es"

section \<open>The actions menu (ProductActionsModal)\<close>

datatype action =
    Edit | AddToExpense | AddToIncome | MoveToFolder | ShowMovement | ShowStock | DeleteProduct

datatype subdialog =
    MoveFolderDialog | MovementDialog | StockDialog | DeleteDialog
  | ExpenseQuantityDialog | IncomeQuantityDialog

text \<open>
  The two props \<^verbatim>\<open>isOpen\<close> and \<^verbatim>\<open>product\<close>, and the ten state variables of lines 28
  to 37. The hooks stand before the test of \<^verbatim>\<open>isOpen\<close> (line 39), so an instance keeps
  its state variables while it is closed.
\<close>

record am_state =
  am_isOpen :: bool
  am_product :: product
  am_showMoveFolder :: bool
  am_showMovement :: bool
  am_showStock :: bool
  am_showDelete :: bool
  am_showExpenseQuantity :: bool
  am_showIncomeQuantity :: bool
  am_showPasswordPrompt :: bool
  am_isEditing :: bool
  am_editedQuantity :: real
  am_editedPrice :: real

text \<open>The state at mount, closed, for the product \<open>p\<close>.\<close>

definition am_init :: "product \<Rightarrow> am_state" where
  "am_init p =
     \<lparr>am_isOpen = False, am_product = p,
      am_showMoveFolder = False, am_showMovement = False, am_showStock = False,
      am_showDelete = False, am_showExpenseQuantity = False, am_showIncomeQuantity = False,
      am_showPasswordPrompt = False, am_isEditing = False,
      am_editedQuantity = or_zero (quantity p),
      am_editedPrice = or_zero (averagePurchasePrice p)\<rparr>"

definition am_handleEdit :: "am_state \<Rightarrow> am_state" where
  "am_handleEdit s = s\<lparr>am_showPasswordPrompt := True\<rparr>"

definition am_handlePasswordSuccess :: "am_state \<Rightarrow> am_state" where
  "am_handlePasswordSuccess s = s\<lparr>am_showPasswordPrompt := False, am_isEditing := True\<rparr>"

text \<open>
  Modelled from the spec: the parent's \<^verbatim>\<open>onClose\<close> is not among the sources. The spec's
  "Closed on outer close" is taken as the parent clearing the prop \<^verbatim>\<open>isOpen\<close>; the call
  touches no state variable of the menu, which only the menu's own setters write.
\<close>

definition am_onClose :: "am_state \<times> world \<Rightarrow> am_state \<times> world" where
  "am_onClose = (\<lambda>(s, w). (s\<lparr>am_isOpen := False\<rparr>, emit OnClose w))"

text \<open>
  The parent's opening of the menu is not among the sources either, and the sources do
  not say whether the parent unmounts a closed menu. Both are in the model: the parent
  opens the menu by mounting the component afresh (\<open>remount\<close>), which gives the state at
  mount with the prop set, or by setting the prop of the instance it kept, which leaves
  the state variables as the close left them.
\<close>

definition am_open :: "bool \<Rightarrow> am_state \<Rightarrow> am_state" where
  "am_open remount s =
     (if remount then (am_init (am_product s))\<lparr>am_isOpen := True\<rparr>
      else s\<lparr>am_isOpen := True\<rparr>)"

text \<open>\<^verbatim>\<open>handleSave\<close> (lines 50 to 76); \<open>o1\<close> is the outcome of the update.\<close>

definition am_handleSave :: "outcome \<Rightarrow> am_state \<times> world \<Rightarrow> am_state \<times> world" where
  "am_handleSave o1 = (\<lambda>(s, w).
     if am_editedQuantity s < 0 then (s, showErrorNotification AM_QuantityNegative w)
     else if am_editedPrice s < 0 then (s, showErrorNotification AM_PriceNegative w)
     else
       (case updateDoc (pid (am_product s))
               \<lparr>patch_quantity = am_editedQuantity s,
                patch_averagePurchasePrice = am_editedPrice s,
                patch_totalPurchasePrice = am_editedQuantity s * am_editedPrice s,
                patch_updatedAt = ServerTimestamp\<rparr> o1 w of
          (Inl err, w1) \<Rightarrow>
            (s, showErrorNotification AM_UpdateFailed
                  (console_error ''Error updating product:'' w1))
        | (Inr u, w1) \<Rightarrow> am_onClose (s, showSuccessNotification AM_ProductUpdated w1)))"

text \<open>The two confirmation handlers (lines 78 to 100).\<close>

definition am_handleExpenseQuantityConfirm :: "real \<Rightarrow> am_state \<times> world \<Rightarrow> am_state \<times> world" where
  "am_handleExpenseQuantityConfirm q = (\<lambda>(s, w).
     am_onClose (s, navigate (Path ''/warehouse/expense/new'') (Some (am_product s, q)) w))"

definition am_handleIncomeQuantityConfirm :: "real \<Rightarrow> am_state \<times> world \<Rightarrow> am_state \<times> world" where
  "am_handleIncomeQuantityConfirm q = (\<lambda>(s, w).
     am_onClose (s, navigate (Path ''/warehouse/income/new'') (Some (am_product s, q)) w))"

text \<open>The flag of a sub-dialog, read and written.\<close>

definition am_shown :: "subdialog \<Rightarrow> am_state \<Rightarrow> bool" where
  "am_shown d s =
     (case d of
        MoveFolderDialog \<Rightarrow> am_showMoveFolder s
      | MovementDialog \<Rightarrow> am_showMovement s
      | StockDialog \<Rightarrow> am_showStock s
      | DeleteDialog \<Rightarrow> am_showDelete s
      | ExpenseQuantityDialog \<Rightarrow> am_showExpenseQuantity s
      | IncomeQuantityDialog \<Rightarrow> am_showIncomeQuantity s)"

definition am_setShown :: "subdialog \<Rightarrow> bool \<Rightarrow> am_state \<Rightarrow> am_state" where
  "am_setShown d b s =
     (case d of
        MoveFolderDialog \<Rightarrow> s\<lparr>am_showMoveFolder := b\<rparr>
      | MovementDialog \<Rightarrow> s\<lparr>am_showMovement := b\<rparr>
      | StockDialog \<Rightarrow> s\<lparr>am_showStock := b\<rparr>
      | DeleteDialog \<Rightarrow> s\<lparr>am_showDelete := b\<rparr>
      | ExpenseQuantityDialog \<Rightarrow> s\<lparr>am_showExpenseQuantity := b\<rparr>
      | IncomeQuantityDialog \<Rightarrow> s\<lparr>am_showIncomeQuantity := b\<rparr>)"

text \<open>The table of actions (lines 102 to 145): the \<^verbatim>\<open>onClick\<close> of each entry.\<close>

definition am_onClick :: "action \<Rightarrow> am_state \<Rightarrow> am_state" where
  "am_onClick a s =
     (case a of
        Edit \<Rightarrow> am_handleEdit s
      | AddToExpense \<Rightarrow> am_setShown ExpenseQuantityDialog True s
      | AddToIncome \<Rightarrow> am_setShown IncomeQuantityDialog True s
      | MoveToFolder \<Rightarrow> am_setShown MoveFolderDialog True s
      | ShowMovement \<Rightarrow> am_setShown MovementDialog True s
      | ShowStock \<Rightarrow> am_setShown StockDialog True s
      | DeleteProduct \<Rightarrow> am_setShown DeleteDialog True s)"

text \<open>
  The events of the menu: the parent opening it (afresh, or the kept instance), the
  close button of the header, a click on an entry of the table, the callbacks of the
  password prompt, the two inputs and two buttons of the inline form, and the callbacks
  handed to the sub-dialogs.
\<close>

datatype am_event =
    AM_Open bool
  | AM_ClickClose
  | AM_ClickAction action
  | AM_PasswordSuccess
  | AM_PasswordClose
  | AM_ChangeQuantity "real option"
  | AM_ChangePrice "real option"
  | AM_ClickCancel
  | AM_ClickSave outcome
  | AM_DialogClose subdialog
  | AM_ExpenseConfirm real
  | AM_IncomeConfirm real

definition am_handle :: "am_event \<Rightarrow> am_state \<times> world \<Rightarrow> am_state \<times> world" where
  "am_handle e = (\<lambda>(s, w).
     case e of
       AM_Open remount \<Rightarrow> (am_open remount s, w)
     | AM_ClickClose \<Rightarrow> am_onClose (s, w)
     | AM_ClickAction a \<Rightarrow> (am_onClick a s, w)
     | AM_PasswordSuccess \<Rightarrow> (am_handlePasswordSuccess s, w)
     | AM_PasswordClose \<Rightarrow> (s\<lparr>am_showPasswordPrompt := False\<rparr>, w)
     | AM_ChangeQuantity v \<Rightarrow> (s\<lparr>am_editedQuantity := number_of_input v\<rparr>, w)
     | AM_ChangePrice v \<Rightarrow> (s\<lparr>am_editedPrice := number_of_input v\<rparr>, w)
     | AM_ClickCancel \<Rightarrow> (s\<lparr>am_isEditing := False\<rparr>, w)
     | AM_ClickSave o1 \<Rightarrow> am_handleSave o1 (s, w)
     | AM_DialogClose d \<Rightarrow> (am_setShown d False s, w)
     | AM_ExpenseConfirm q \<Rightarrow> am_handleExpenseQuantityConfirm q (s, w)
     | AM_IncomeConfirm q \<Rightarrow> am_handleIncomeQuantityConfirm q (s, w))"

text \<open>
  Where each control is in the markup (lines 147 to 265): nothing is rendered while the
  menu is closed; the table of actions is rendered when the menu is not editing, the
  inline form when it is; the prompt and each sub-dialog when its flag is set.
\<close>

definition am_rendered :: "am_state \<Rightarrow> am_event \<Rightarrow> bool" where
  "am_rendered s e =
     (case e of
        AM_Open remount \<Rightarrow> \<not> am_isOpen s
      | AM_ClickClose \<Rightarrow> am_isOpen s
      | AM_ClickAction a \<Rightarrow> am_isOpen s \<and> \<not> am_isEditing s
      | AM_PasswordSuccess \<Rightarrow> am_isOpen s \<and> am_showPasswordPrompt s
      | AM_PasswordClose \<Rightarrow> am_isOpen s \<and> am_showPasswordPrompt s
      | AM_ChangeQuantity v \<Rightarrow> am_isOpen s \<and> am_isEditing s
      | AM_ChangePrice v \<Rightarrow> am_isOpen s \<and> am_isEditing s
      | AM_ClickCancel \<Rightarrow> am_isOpen s \<and> am_isEditing s
      | AM_ClickSave o1 \<Rightarrow> am_isOpen s \<and> am_isEditing s
      | AM_DialogClose d \<Rightarrow> am_isOpen s \<and> am_shown d s
      | AM_ExpenseConfirm q \<Rightarrow> am_isOpen s \<and> am_shown ExpenseQuantityDialog s
      | AM_IncomeConfirm q \<Rightarrow> am_isOpen s \<and> am_shown IncomeQuantityDialog s)"

definition am_step :: "am_state \<times> world \<Rightarrow> am_event \<Rightarrow> am_state \<times> world" where
  "am_step c e = (if am_rendered (fst c) e then am_handle e c else c)"

definition am_run :: "am_state \<times> world \<Rightarrow> am_event list \<Rightarrow> am_state \<times> world" where
  "am_run c es = foldl am_step c es"

text \<open>
  The flags of the menu as a list: the six sub-dialogs, the password prompt, the inline
  form.
\<close>

definition am_flags :: "am_state \<Rightarrow> bool list" where
  "am_flags s =
     [am_showMoveFolder s, am_showMovement s, am_showStock s, am_showDelete s,
      am_showExpenseQuantity s, am_showIncomeQuantity s, am_showPasswordPrompt s,
      am_isEditing s]"

definition am_dialogShown :: "am_state \<Rightarrow> bool" where
  "am_dialogShown s =
     (am_showMoveFolder s \<or> am_showMovement s \<or> am_showStock s \<or> am_showDelete s \<or>
      am_showExpenseQuantity s \<or> am_showIncomeQuantity s \<or> am_showPasswordPrompt s)"




text \<open>The state of the spec's machine that an instance is in, read from what it renders.\<close>

datatype phase = Closed | MenuOpen | EditingInline | AwaitingPassword | SubDialogOpen

definition am_phase :: "am_state \<Rightarrow> phase" where
  "am_phase s =
     (if \<not> am_isOpen s then Closed
      else if am_isEditing s then EditingInline
      else if am_showPasswordPrompt s then AwaitingPassword
      else if am_dialogShown s then SubDialogOpen
      else MenuOpen)"


section \<open>What the spec says is written\<close>

text \<open>
  The fields of a saved product in the spec's words (section 4.1): the quantity, the
  price, the derived total (quantity times price) and the timestamp.
\<close>

definition spec_patch :: "real \<Rightarrow> real \<Rightarrow> product_patch" where
  "spec_patch newQty newPrice =
     \<lparr>patch_quantity = newQty, patch_averagePurchasePrice = newPrice,
      patch_totalPurchasePrice = newQty * newPrice, patch_updatedAt = ServerTimestamp\<rparr>"

text \<open>
  The movement record of a manual adjustment in the spec's words (sections 3 and 8): the
  delta is the absolute difference of the new and the previous quantity; the direction is
  "in" if the new quantity is greater than the previous one, else "out"; the record
  carries the unit price, the total price, the previous and new quantity and the previous
  and new average price. \<open>p\<close> is the product before the edit, \<open>t\<close> the date field.
\<close>

definition spec_movement :: "product \<Rightarrow> real \<Rightarrow> real \<Rightarrow> time_value \<Rightarrow> movement" where
  "spec_movement p newQty newPrice t =
     \<lparr>mv_productId = pid p,
      mv_type = (if newQty > quantity p then MoveIn else MoveOut),
      mv_quantity = \<bar>newQty - quantity p\<bar>,
      mv_price = newPrice,
      mv_totalPrice = \<bar>newQty - quantity p\<bar> * newPrice,
      mv_date = t,
      mv_description = ManualQuantityAdjustment,
      mv_warehouse = MainWarehouse,
      mv_previousQuantity = quantity p,
      mv_newQuantity = newQty,
      mv_previousAveragePrice = averagePurchasePrice p,
      mv_newAveragePrice = newPrice\<rparr>"

text \<open>The product with the edited quantity, price and total.\<close>

definition spec_edited :: "product \<Rightarrow> real \<Rightarrow> real \<Rightarrow> product" where
  "spec_edited p newQty newPrice =
     p\<lparr>quantity := newQty, averagePurchasePrice := newPrice,
       totalPurchasePrice := newQty * newPrice\<rparr>"

text \<open>The effects a handler added to the ones of \<open>w\<close>.\<close>

definition new_effects :: "world \<Rightarrow> world \<Rightarrow> effect list" where
  "new_effects w w' = drop (length (effects w)) (effects w')"

section \<open>A concrete scenario\<close>

text \<open>
  The product of the spec's scenarios: quantity 10 at price 100, stored under the id
  \<open>''p1''\<close>, and a store that holds it and no movement record.
\<close>

definition demo_product :: product where
  "demo_product =
     \<lparr>pid = ''p1'', name = ''Cement'', category = ''Materials'', quantity = 10,
      unit_label = ''kg'', averagePurchasePrice = 100, totalPurchasePrice = 1000,
      image_ref = None, minQuantity = Some 2, updatedAt = Time 0\<rparr>"

definition demo_world :: world where
  "demo_world = \<lparr>products = [''p1'' \<mapsto> demo_product], productMovements = [], effects = []\<rparr>"

text \<open>The detail view with the product loaded and the edit form open.\<close>

definition demo_editing :: "real \<Rightarrow> real \<Rightarrow> pd_state" where
  "demo_editing q pr =
     (pd_init (Some ''p1''))\<lparr>pd_product := Some demo_product, pd_loading := False,
        pd_isEditing := True, pd_editedQuantity := q, pd_editedPrice := pr\<rparr>"

text \<open>The menu of the product, open, with the inline form shown.\<close>

definition demo_menu_editing :: "real \<Rightarrow> real \<Rightarrow> am_state" where
  "demo_menu_editing q pr =
     (am_init demo_product)\<lparr>am_isOpen := True, am_isEditing := True,
        am_editedQuantity := q, am_editedPrice := pr\<rparr>"

section \<open>Unfolding the handlers\<close>

lemmas store_defs = emit_def updateDoc_def setDoc_def getDoc_def stamp_def apply_patch_def
  showSuccessNotification_def showErrorNotification_def console_error_def navigate_def

lemmas spec_defs = spec_patch_def spec_movement_def spec_edited_def new_effects_def

lemmas demo_defs = demo_product_def demo_world_def demo_editing_def demo_menu_editing_def
  pd_init_def am_init_def or_zero_def

text \<open>
  Past the two validity checks, the save of the detail view writes the patch and the
  movement record the spec describes: the objects built in lines 74 to 106 are
  \<open>spec_patch\<close>, \<open>spec_edited\<close> and \<open>spec_movement\<close>.
\<close>

lemma pd_handleSave_valid:
  assumes "pd_product s = Some p" "0 \<le> pd_editedQuantity s" "0 \<le> pd_editedPrice s"
  shows "pd_handleSave o1 o2 (s, w) =
     (case updateDoc (pid p) (spec_patch (pd_editedQuantity s) (pd_editedPrice s)) o1 w of
        (Inl err, w1) \<Rightarrow>
          (s, showErrorNotification PD_UpdateFailed (console_error ''Error updating product:'' w1))
      | (Inr u, w1) \<Rightarrow>
          (case setDoc (spec_movement p (pd_editedQuantity s) (pd_editedPrice s) ServerTimestamp) o2 w1 of
             (Inl err, w2) \<Rightarrow>
               (s\<lparr>pd_product := Some (spec_edited p (pd_editedQuantity s) (pd_editedPrice s))\<rparr>,
                showErrorNotification PD_UpdateFailed (console_error ''Error updating product:'' w2))
           | (Inr u2, w2) \<Rightarrow>
               (s\<lparr>pd_product := Some (spec_edited p (pd_editedQuantity s) (pd_editedPrice s)),
                  pd_isEditing := False\<rparr>,
                showSuccessNotification PD_QuantityUpdated w2)))"
  using assms
  by (simp add: pd_handleSave_def spec_defs Let_def not_less[symmetric] split: prod.splits sum.splits)

lemma am_handleSave_valid:
  assumes "0 \<le> am_editedQuantity a" "0 \<le> am_editedPrice a"
  shows "am_handleSave o1 (a, w) =
     (case updateDoc (pid (am_product a)) (spec_patch (am_editedQuantity a) (am_editedPrice a)) o1 w of
        (Inl err, w1) \<Rightarrow>
          (a, showErrorNotification AM_UpdateFailed (console_error ''Error updating product:'' w1))
      | (Inr u, w1) \<Rightarrow> am_onClose (a, showSuccessNotification AM_ProductUpdated w1))"
  using assms
  by (simp add: am_handleSave_def spec_defs not_less[symmetric] split: prod.splits sum.splits)

lemma updateDoc_fails:
  "out = Rejects \<or> products w i = None \<Longrightarrow>
   \<exists>err. updateDoc i patch out w = (Inl err, w\<lparr>effects := effects w @ [CallUpdateDoc i patch]\<rparr>)"
  by (auto simp: updateDoc_def emit_def Let_def split: outcome.splits)

text \<open>The save of the menu never touches the movement log, whatever its input.\<close>

lemma am_handleSave_movements:
  "productMovements (snd (am_handleSave o1 c)) = productMovements (snd c)"
  by (cases c)
     (simp add: am_handleSave_def am_onClose_def store_defs Let_def
           split: option.splits outcome.splits)

section \<open>Saving an edit\<close>

text \<open>
  Claim C1. Every successful edit of the quantity or the price, in the detail view or in
  the inline form of the actions menu, appends exactly one movement record, with the
  delta the absolute difference of the quantities and the direction "in" if the new
  quantity is greater, else "out".

  The menu does not: on the product of the scenario (quantity 10, price 100), edited to
  quantity 15 and price 120 with the update resolving, its save changes the stored
  quantity to 15, shows the success notification, closes the menu, and leaves the
  movement log empty. The save of the detail view appends the record on the same input.
\<close>

theorem actions_menu_save_appends_no_movement:
  "productMovements (snd (am_handleSave (Resolves 7) (demo_menu_editing 15 120, demo_world))) = [] \<and>
   map_option quantity
     (products (snd (am_handleSave (Resolves 7) (demo_menu_editing 15 120, demo_world))) ''p1'') =
     Some 15 \<and>
   new_effects demo_world (snd (am_handleSave (Resolves 7) (demo_menu_editing 15 120, demo_world))) =
     [CallUpdateDoc ''p1'' (spec_patch 15 120), SuccessNotification AM_ProductUpdated, OnClose] \<and>
   productMovements
     (snd (pd_handleSave (Resolves 7) (Resolves 8) (demo_editing 15 120, demo_world))) =
     [spec_movement demo_product 15 120 (Time 8)]"
  by (simp add: am_handleSave_def pd_handleSave_def am_onClose_def store_defs spec_defs demo_defs)

text \<open>
  Claim C2. A save with a negative edited quantity or a negative edited price writes
  nothing to the store, shows an error notification and leaves the product as it is: the
  handler returns the state it was given, and the world it was given with one error
  notification added. In the detail view the save button is on the screen only when a
  product is loaded, so a click on it is such a save; the menu's handler has no such
  condition.
\<close>

theorem negative_input_is_rejected:
  "(pd_product s = Some p \<and> (pd_editedQuantity s < 0 \<or> pd_editedPrice s < 0) \<longrightarrow>
      pd_handleSave o1 o2 (s, w) =
        (s, w\<lparr>effects := effects w @
              [ErrorNotification
                 (if pd_editedQuantity s < 0 then PD_QuantityNegative else PD_PriceNegative)]\<rparr>)) \<and>
   (pd_enabled s (PD_ClickSave o1 o2) \<and> (pd_editedQuantity s < 0 \<or> pd_editedPrice s < 0) \<longrightarrow>
      pd_step (s, w) (PD_ClickSave o1 o2) =
        (s, w\<lparr>effects := effects w @
              [ErrorNotification
                 (if pd_editedQuantity s < 0 then PD_QuantityNegative else PD_PriceNegative)]\<rparr>)) \<and>
   (am_editedQuantity a < 0 \<or> am_editedPrice a < 0 \<longrightarrow>
      am_handleSave o3 (a, wa) =
        (a, wa\<lparr>effects := effects wa @
              [ErrorNotification
                 (if am_editedQuantity a < 0 then AM_QuantityNegative else AM_PriceNegative)]\<rparr>))"
  by (auto simp: pd_handleSave_def am_handleSave_def store_defs pd_step_def pd_handle_def
        pd_enabled_def pd_render_def split: if_splits)

text \<open>
  The spec's scenario: the product with quantity 10 edited to quantity -1 in the detail
  view, and a price of -5 entered in the menu.
\<close>

theorem negative_input_is_rejected_witness:
  "pd_product (demo_editing (- 1) 100) = Some demo_product \<and>
   pd_enabled (demo_editing (- 1) 100) (PD_ClickSave (Resolves 7) (Resolves 8)) \<and>
   pd_editedQuantity (demo_editing (- 1) 100) < 0 \<and>
   pd_handleSave (Resolves 7) (Resolves 8) (demo_editing (- 1) 100, demo_world) =
     (demo_editing (- 1) 100, demo_world\<lparr>effects := [ErrorNotification PD_QuantityNegative]\<rparr>) \<and>
   pd_step (demo_editing (- 1) 100, demo_world) (PD_ClickSave (Resolves 7) (Resolves 8)) =
     (demo_editing (- 1) 100, demo_world\<lparr>effects := [ErrorNotification PD_QuantityNegative]\<rparr>) \<and>
   am_editedPrice (demo_menu_editing 3 (- 5)) < 0 \<and>
   am_handleSave (Resolves 7) (demo_menu_editing 3 (- 5), demo_world) =
     (demo_menu_editing 3 (- 5), demo_world\<lparr>effects := [ErrorNotification AM_PriceNegative]\<rparr>)"
proof -
  have h1: "pd_product (demo_editing (- 1) 100) = Some demo_product"
    and h2: "pd_editedQuantity (demo_editing (- 1) 100) < 0"
    and h3: "am_editedPrice (demo_menu_editing 3 (- 5)) < 0"
    and h4: "\<not> am_editedQuantity (demo_menu_editing 3 (- 5)) < 0"
    and h5: "pd_enabled (demo_editing (- 1) 100) (PD_ClickSave (Resolves 7) (Resolves 8))"
    by (simp_all add: demo_defs pd_enabled_def pd_render_def)
  note r = negative_input_is_rejected[of "demo_editing (- 1) 100" demo_product
      "Resolves 7" "Resolves 8" demo_world "demo_menu_editing 3 (- 5)" "Resolves 7" demo_world]
  from r h1 h2 have a: "pd_handleSave (Resolves 7) (Resolves 8) (demo_editing (- 1) 100, demo_world) =
     (demo_editing (- 1) 100, demo_world\<lparr>effects := [ErrorNotification PD_QuantityNegative]\<rparr>)"
    by (simp add: demo_world_def)
  from r h5 h2 have a2: "pd_step (demo_editing (- 1) 100, demo_world) (PD_ClickSave (Resolves 7) (Resolves 8)) =
     (demo_editing (- 1) 100, demo_world\<lparr>effects := [ErrorNotification PD_QuantityNegative]\<rparr>)"
    by (simp add: demo_world_def)
  from r h3 h4 have b: "am_handleSave (Resolves 7) (demo_menu_editing 3 (- 5), demo_world) =
     (demo_menu_editing 3 (- 5), demo_world\<lparr>effects := [ErrorNotification AM_PriceNegative]\<rparr>)"
    by (simp add: demo_world_def)
  from h1 h2 h3 h5 a a2 b show ?thesis by blast
qed

text \<open>
  Claim C3. A valid save in the detail view (product loaded, quantity and price not
  negative) does its operations in this order: the update of the product's quantity,
  price, total and timestamp; then, once the update has resolved, the write of one
  movement record computed from the previous and the new values; then, once that write
  has resolved, the success notification, with the view out of edit mode. A write that
  fails is followed by the console entry and the error notification, and by nothing
  else. When both writes resolve, the local copy of the product takes the edited values,
  and the store is not read back.
\<close>

theorem valid_save_runs_in_order:
  assumes loaded: "pd_product s = Some p"
    and valid: "0 \<le> pd_editedQuantity s" "0 \<le> pd_editedPrice s"
  shows "new_effects w (snd (pd_handleSave o1 o2 (s, w))) \<in> set
           [[CallUpdateDoc (pid p) (spec_patch (pd_editedQuantity s) (pd_editedPrice s)),
             ConsoleError ''Error updating product:'',
             ErrorNotification PD_UpdateFailed],
            [CallUpdateDoc (pid p) (spec_patch (pd_editedQuantity s) (pd_editedPrice s)),
             CallSetDoc (spec_movement p (pd_editedQuantity s) (pd_editedPrice s) ServerTimestamp),
             ConsoleError ''Error updating product:'',
             ErrorNotification PD_UpdateFailed],
            [CallUpdateDoc (pid p) (spec_patch (pd_editedQuantity s) (pd_editedPrice s)),
             CallSetDoc (spec_movement p (pd_editedQuantity s) (pd_editedPrice s) ServerTimestamp),
             SuccessNotification PD_QuantityUpdated]] \<and>
         (products w (pid p) = Some d \<and>
          pd_handleSave (Resolves t1) (Resolves t2) (s, w) = (s', w') \<longrightarrow>
            new_effects w w' =
              [CallUpdateDoc (pid p) (spec_patch (pd_editedQuantity s) (pd_editedPrice s)),
               CallSetDoc (spec_movement p (pd_editedQuantity s) (pd_editedPrice s) ServerTimestamp),
               SuccessNotification PD_QuantityUpdated] \<and>
            products w' = (products w)(pid p \<mapsto>
               (spec_edited d (pd_editedQuantity s) (pd_editedPrice s))\<lparr>updatedAt := Time t1\<rparr>) \<and>
            productMovements w' = productMovements w @
               [spec_movement p (pd_editedQuantity s) (pd_editedPrice s) (Time t2)] \<and>
            s' = s\<lparr>pd_product := Some (spec_edited p (pd_editedQuantity s) (pd_editedPrice s)),
                   pd_isEditing := False\<rparr> \<and>
            (\<forall>i. CallGetDoc i \<notin> set (new_effects w w')))"
proof (rule conjI)
  show "new_effects w (snd (pd_handleSave o1 o2 (s, w))) \<in> set
           [[CallUpdateDoc (pid p) (spec_patch (pd_editedQuantity s) (pd_editedPrice s)),
             ConsoleError ''Error updating product:'',
             ErrorNotification PD_UpdateFailed],
            [CallUpdateDoc (pid p) (spec_patch (pd_editedQuantity s) (pd_editedPrice s)),
             CallSetDoc (spec_movement p (pd_editedQuantity s) (pd_editedPrice s) ServerTimestamp),
             ConsoleError ''Error updating product:'',
             ErrorNotification PD_UpdateFailed],
            [CallUpdateDoc (pid p) (spec_patch (pd_editedQuantity s) (pd_editedPrice s)),
             CallSetDoc (spec_movement p (pd_editedQuantity s) (pd_editedPrice s) ServerTimestamp),
             SuccessNotification PD_QuantityUpdated]]"
    unfolding pd_handleSave_valid[OF loaded valid]
    by (cases o1; cases o2; cases "products w (pid p)")
       (simp_all add: store_defs new_effects_def)
next
  show "products w (pid p) = Some d \<and>
          pd_handleSave (Resolves t1) (Resolves t2) (s, w) = (s', w') \<longrightarrow>
            new_effects w w' =
              [CallUpdateDoc (pid p) (spec_patch (pd_editedQuantity s) (pd_editedPrice s)),
               CallSetDoc (spec_movement p (pd_editedQuantity s) (pd_editedPrice s) ServerTimestamp),
               SuccessNotification PD_QuantityUpdated] \<and>
            products w' = (products w)(pid p \<mapsto>
               (spec_edited d (pd_editedQuantity s) (pd_editedPrice s))\<lparr>updatedAt := Time t1\<rparr>) \<and>
            productMovements w' = productMovements w @
               [spec_movement p (pd_editedQuantity s) (pd_editedPrice s) (Time t2)] \<and>
            s' = s\<lparr>pd_product := Some (spec_edited p (pd_editedQuantity s) (pd_editedPrice s)),
                   pd_isEditing := False\<rparr> \<and>
            (\<forall>i. CallGetDoc i \<notin> set (new_effects w w'))"
    unfolding pd_handleSave_valid[OF loaded valid]
    by (auto simp: store_defs spec_defs)
qed

text \<open>
  The spec's scenario: quantity 10 at price 100 edited to quantity 15 at price 120 gives
  the total 1800 and one record "in" of quantity 5.
\<close>

theorem valid_save_runs_in_order_witness:
  "pd_product (demo_editing 15 120) = Some demo_product \<and>
   0 \<le> pd_editedQuantity (demo_editing 15 120) \<and>
   0 \<le> pd_editedPrice (demo_editing 15 120) \<and>
   products demo_world (pid demo_product) = Some demo_product \<and>
   new_effects demo_world
       (snd (pd_handleSave (Resolves 7) (Resolves 8) (demo_editing 15 120, demo_world))) =
     [CallUpdateDoc ''p1''
        \<lparr>patch_quantity = 15, patch_averagePurchasePrice = 120,
         patch_totalPurchasePrice = 1800, patch_updatedAt = ServerTimestamp\<rparr>,
      CallSetDoc
        \<lparr>mv_productId = ''p1'', mv_type = MoveIn, mv_quantity = 5, mv_price = 120,
         mv_totalPrice = 600, mv_date = ServerTimestamp,
         mv_description = ManualQuantityAdjustment, mv_warehouse = MainWarehouse,
         mv_previousQuantity = 10, mv_newQuantity = 15,
         mv_previousAveragePrice = 100, mv_newAveragePrice = 120\<rparr>,
      SuccessNotification PD_QuantityUpdated] \<and>
   productMovements
       (snd (pd_handleSave (Resolves 7) (Resolves 8) (demo_editing 15 120, demo_world))) =
     [\<lparr>mv_productId = ''p1'', mv_type = MoveIn, mv_quantity = 5, mv_price = 120,
       mv_totalPrice = 600, mv_date = Time 8,
       mv_description = ManualQuantityAdjustment, mv_warehouse = MainWarehouse,
       mv_previousQuantity = 10, mv_newQuantity = 15,
       mv_previousAveragePrice = 100, mv_newAveragePrice = 120\<rparr>] \<and>
   pd_isEditing
     (fst (pd_handleSave (Resolves 7) (Resolves 8) (demo_editing 15 120, demo_world))) = False"
proof -
  have h1: "pd_product (demo_editing 15 120) = Some demo_product"
    by (simp add: demo_defs)
  have h2: "0 \<le> pd_editedQuantity (demo_editing 15 120)"
    and h3: "0 \<le> pd_editedPrice (demo_editing 15 120)"
    by (simp_all add: demo_defs)
  have h4: "products demo_world (pid demo_product) = Some demo_product"
    by (simp add: demo_defs)
  have h5: "pd_handleSave (Resolves 7) (Resolves 8) (demo_editing 15 120, demo_world) =
      (fst (pd_handleSave (Resolves 7) (Resolves 8) (demo_editing 15 120, demo_world)),
       snd (pd_handleSave (Resolves 7) (Resolves 8) (demo_editing 15 120, demo_world)))"
    by simp
  note r = valid_save_runs_in_order[OF h1 h2 h3, THEN conjunct2, rule_format, OF conjI, OF h4 h5]
  from h1 h2 h3 h4 r show ?thesis
    by (simp add: demo_defs spec_defs)
qed

text \<open>
  Claim C9. A valid save in the detail view that leaves the quantity as it is (no change
  at all, or a change of the price only) still appends a movement record: its quantity
  is 0, its direction "out" and its total price 0.
\<close>

theorem unchanged_quantity_still_logged:
  assumes loaded: "pd_product s = Some p"
    and same: "pd_editedQuantity s = quantity p"
    and valid: "0 \<le> pd_editedQuantity s" "0 \<le> pd_editedPrice s"
    and stored: "products w (pid p) = Some d"
    and result: "pd_handleSave (Resolves t1) (Resolves t2) (s, w) = (s', w')"
  shows "\<exists>m. productMovements w' = productMovements w @ [m] \<and>
           mv_productId m = pid p \<and> mv_quantity m = 0 \<and> mv_type m = MoveOut \<and>
           mv_totalPrice m = 0 \<and> mv_previousQuantity m = quantity p \<and>
           mv_newQuantity m = quantity p \<and> mv_price m = pd_editedPrice s"
  using stored result same unfolding pd_handleSave_valid[OF loaded valid]
  by (auto simp: store_defs spec_defs)

text \<open>The product with quantity 10 at price 100, saved with quantity 10 at price 120.\<close>

theorem unchanged_quantity_still_logged_witness:
  "pd_product (demo_editing 10 120) = Some demo_product \<and>
   pd_editedQuantity (demo_editing 10 120) = quantity demo_product \<and>
   0 \<le> pd_editedQuantity (demo_editing 10 120) \<and>
   0 \<le> pd_editedPrice (demo_editing 10 120) \<and>
   products demo_world (pid demo_product) = Some demo_product \<and>
   (\<exists>m. productMovements
          (snd (pd_handleSave (Resolves 7) (Resolves 8) (demo_editing 10 120, demo_world))) = [m] \<and>
        mv_quantity m = 0 \<and> mv_type m = MoveOut \<and> mv_totalPrice m = 0)"
proof -
  have h1: "pd_product (demo_editing 10 120) = Some demo_product"
    and h2: "pd_editedQuantity (demo_editing 10 120) = quantity demo_product"
    and h3: "0 \<le> pd_editedQuantity (demo_editing 10 120)"
    and h4: "0 \<le> pd_editedPrice (demo_editing 10 120)"
    and h5: "products demo_world (pid demo_product) = Some demo_product"
    by (simp_all add: demo_defs)
  from unchanged_quantity_still_logged[OF h1 h2 h3 h4 h5 surjective_pairing]
  have "\<exists>m. productMovements
          (snd (pd_handleSave (Resolves 7) (Resolves 8) (demo_editing 10 120, demo_world))) = [m] \<and>
        mv_quantity m = 0 \<and> mv_type m = MoveOut \<and> mv_totalPrice m = 0"
    by (auto simp: demo_world_def)
  with h1 h2 h3 h4 h5 show ?thesis by blast
qed

text \<open>
  Claim C4. After a save whose update resolves, the stored total purchase price is the
  edited quantity times the edited price, in the detail view and in the menu. The total
  the detail view displays is the quantity times the average price of its copy of the
  product, which after the save is the stored total; it is computed from these two
  fields and does not depend on the stored total field.
\<close>

theorem total_is_quantity_times_price:
  "(pd_product s = Some p \<and> 0 \<le> pd_editedQuantity s \<and> 0 \<le> pd_editedPrice s \<and>
    products w (pid p) = Some d \<longrightarrow>
      (\<exists>d' p'. products (snd (pd_handleSave (Resolves t1) o2 (s, w))) (pid p) = Some d' \<and>
          pd_product (fst (pd_handleSave (Resolves t1) o2 (s, w))) = Some p' \<and>
          totalPurchasePrice d' = pd_editedQuantity s * pd_editedPrice s \<and>
          pd_displayedTotal p' = quantity p' * averagePurchasePrice p' \<and>
          pd_displayedTotal p' = totalPurchasePrice d')) \<and>
   (0 \<le> am_editedQuantity a \<and> 0 \<le> am_editedPrice a \<and>
    products wa (pid (am_product a)) = Some da \<longrightarrow>
      (\<exists>d'. products (snd (am_handleSave (Resolves ta) (a, wa))) (pid (am_product a)) = Some d' \<and>
          totalPurchasePrice d' = am_editedQuantity a * am_editedPrice a)) \<and>
   pd_displayedTotal q = quantity q * averagePurchasePrice q \<and>
   pd_displayedTotal (q\<lparr>totalPurchasePrice := x\<rparr>) = pd_displayedTotal q"
proof (intro conjI impI)
  assume h: "pd_product s = Some p \<and> 0 \<le> pd_editedQuantity s \<and> 0 \<le> pd_editedPrice s \<and>
    products w (pid p) = Some d"
  then have "pd_product s = Some p" "0 \<le> pd_editedQuantity s" "0 \<le> pd_editedPrice s"
    by simp_all
  note eq = pd_handleSave_valid[OF this]
  from h show "\<exists>d' p'. products (snd (pd_handleSave (Resolves t1) o2 (s, w))) (pid p) = Some d' \<and>
          pd_product (fst (pd_handleSave (Resolves t1) o2 (s, w))) = Some p' \<and>
          totalPurchasePrice d' = pd_editedQuantity s * pd_editedPrice s \<and>
          pd_displayedTotal p' = quantity p' * averagePurchasePrice p' \<and>
          pd_displayedTotal p' = totalPurchasePrice d'"
    unfolding eq
    by (cases o2) (auto simp: store_defs spec_defs pd_displayedTotal_def or_zero_def)
next
  assume h: "0 \<le> am_editedQuantity a \<and> 0 \<le> am_editedPrice a \<and>
    products wa (pid (am_product a)) = Some da"
  then have "0 \<le> am_editedQuantity a" "0 \<le> am_editedPrice a"
    by simp_all
  note eq = am_handleSave_valid[OF this]
  from h show "\<exists>d'. products (snd (am_handleSave (Resolves ta) (a, wa))) (pid (am_product a)) = Some d' \<and>
          totalPurchasePrice d' = am_editedQuantity a * am_editedPrice a"
    unfolding eq by (auto simp: store_defs spec_defs am_onClose_def)
qed (simp_all add: pd_displayedTotal_def or_zero_def)

text \<open>Quantity 15 at price 120: the stored and the displayed total are 1800.\<close>

theorem total_is_quantity_times_price_witness:
  "pd_product (demo_editing 15 120) = Some demo_product \<and>
   0 \<le> pd_editedQuantity (demo_editing 15 120) \<and>
   0 \<le> pd_editedPrice (demo_editing 15 120) \<and>
   products demo_world (pid demo_product) = Some demo_product \<and>
   (\<exists>d' p'. products
          (snd (pd_handleSave (Resolves 7) (Resolves 8) (demo_editing 15 120, demo_world)))
          (pid demo_product) = Some d' \<and>
       pd_product
          (fst (pd_handleSave (Resolves 7) (Resolves 8) (demo_editing 15 120, demo_world))) = Some p' \<and>
       totalPurchasePrice d' = 1800 \<and> pd_displayedTotal p' = 1800) \<and>
   0 \<le> am_editedQuantity (demo_menu_editing 15 120) \<and>
   0 \<le> am_editedPrice (demo_menu_editing 15 120) \<and>
   products demo_world (pid (am_product (demo_menu_editing 15 120))) = Some demo_product \<and>
   (\<exists>d'. products (snd (am_handleSave (Resolves 7) (demo_menu_editing 15 120, demo_world)))
              (pid (am_product (demo_menu_editing 15 120))) = Some d' \<and>
       totalPurchasePrice d' = 1800)"
proof -
  have h1: "pd_product (demo_editing 15 120) = Some demo_product \<and>
      0 \<le> pd_editedQuantity (demo_editing 15 120) \<and>
      0 \<le> pd_editedPrice (demo_editing 15 120) \<and>
      products demo_world (pid demo_product) = Some demo_product"
    by (simp add: demo_defs)
  have h2: "0 \<le> am_editedQuantity (demo_menu_editing 15 120) \<and>
      0 \<le> am_editedPrice (demo_menu_editing 15 120) \<and>
      products demo_world (pid (am_product (demo_menu_editing 15 120))) = Some demo_product"
    by (simp add: demo_defs)
  note r = total_is_quantity_times_price[of "demo_editing 15 120" demo_product demo_world
      demo_product 7 "Resolves 8" "demo_menu_editing 15 120" demo_world demo_product 7]
  from r have "\<exists>d' p'. products
          (snd (pd_handleSave (Resolves 7) (Resolves 8) (demo_editing 15 120, demo_world)))
          (pid demo_product) = Some d' \<and>
       pd_product
          (fst (pd_handleSave (Resolves 7) (Resolves 8) (demo_editing 15 120, demo_world))) = Some p' \<and>
       totalPurchasePrice d' =
          pd_editedQuantity (demo_editing 15 120) * pd_editedPrice (demo_editing 15 120) \<and>
       pd_displayedTotal p' = quantity p' * averagePurchasePrice p' \<and>
       pd_displayedTotal p' = totalPurchasePrice d'"
    using h1 by blast
  then obtain d' p' where
      "products (snd (pd_handleSave (Resolves 7) (Resolves 8) (demo_editing 15 120, demo_world)))
              (pid demo_product) = Some d'"
      "pd_product
          (fst (pd_handleSave (Resolves 7) (Resolves 8) (demo_editing 15 120, demo_world))) = Some p'"
      "totalPurchasePrice d' =
          pd_editedQuantity (demo_editing 15 120) * pd_editedPrice (demo_editing 15 120)"
      "pd_displayedTotal p' = totalPurchasePrice d'"
    by blast
  moreover have "pd_editedQuantity (demo_editing 15 120) * pd_editedPrice (demo_editing 15 120) = 1800"
    by (simp add: demo_defs)
  ultimately have a: "\<exists>d' p'. products
          (snd (pd_handleSave (Resolves 7) (Resolves 8) (demo_editing 15 120, demo_world)))
          (pid demo_product) = Some d' \<and>
       pd_product
          (fst (pd_handleSave (Resolves 7) (Resolves 8) (demo_editing 15 120, demo_world))) = Some p' \<and>
       totalPurchasePrice d' = 1800 \<and> pd_displayedTotal p' = 1800"
    by auto
  from r have "\<exists>d'. products (snd (am_handleSave (Resolves 7) (demo_menu_editing 15 120, demo_world)))
              (pid (am_product (demo_menu_editing 15 120))) = Some d' \<and>
       totalPurchasePrice d' =
          am_editedQuantity (demo_menu_editing 15 120) * am_editedPrice (demo_menu_editing 15 120)"
    using h2 by blast
  moreover have "am_editedQuantity (demo_menu_editing 15 120) * am_editedPrice (demo_menu_editing 15 120) = 1800"
    by (simp add: demo_defs)
  ultimately have b: "\<exists>d'. products
          (snd (am_handleSave (Resolves 7) (demo_menu_editing 15 120, demo_world)))
          (pid (am_product (demo_menu_editing 15 120))) = Some d' \<and>
       totalPurchasePrice d' = 1800"
    by auto
  from h1 h2 a b show ?thesis by blast
qed

text \<open>
  Claim C7. A failure of a store operation during a save is caught where it happens,
  logged on the console and shown as one generic error notification. When the update of
  the product fails (the write rejects, or the document is not there), the state of the
  component and the store are as before. When the update has resolved and the write of
  the movement record fails, what that update completed stays (the stored product and
  the view's copy of it carry the edited values), the rest of the view's state is as
  before, so the view is still in edit mode, no movement record is stored and no success
  notification is shown. The menu stays open when its update fails.
\<close>

theorem store_failure_is_contained:
  "(pd_product s = Some p \<and> 0 \<le> pd_editedQuantity s \<and> 0 \<le> pd_editedPrice s \<and>
    (o1 = Rejects \<or> products w (pid p) = None) \<longrightarrow>
      pd_handleSave o1 o2 (s, w) =
        (s, w\<lparr>effects := effects w @
              [CallUpdateDoc (pid p) (spec_patch (pd_editedQuantity s) (pd_editedPrice s)),
               ConsoleError ''Error updating product:'',
               ErrorNotification PD_UpdateFailed]\<rparr>)) \<and>
   (pd_product s = Some p \<and> 0 \<le> pd_editedQuantity s \<and> 0 \<le> pd_editedPrice s \<and>
    products w (pid p) = Some d \<longrightarrow>
      pd_handleSave (Resolves t1) Rejects (s, w) =
        (s\<lparr>pd_product := Some (spec_edited p (pd_editedQuantity s) (pd_editedPrice s))\<rparr>,
         w\<lparr>products := (products w)(pid p \<mapsto>
               (spec_edited d (pd_editedQuantity s) (pd_editedPrice s))\<lparr>updatedAt := Time t1\<rparr>),
           effects := effects w @
              [CallUpdateDoc (pid p) (spec_patch (pd_editedQuantity s) (pd_editedPrice s)),
               CallSetDoc (spec_movement p (pd_editedQuantity s) (pd_editedPrice s) ServerTimestamp),
               ConsoleError ''Error updating product:'',
               ErrorNotification PD_UpdateFailed]\<rparr>) \<and>
      pd_isEditing (fst (pd_handleSave (Resolves t1) Rejects (s, w))) = pd_isEditing s \<and>
      productMovements (snd (pd_handleSave (Resolves t1) Rejects (s, w))) = productMovements w \<and>
      SuccessNotification PD_QuantityUpdated \<notin>
        set (new_effects w (snd (pd_handleSave (Resolves t1) Rejects (s, w))))) \<and>
   (0 \<le> am_editedQuantity a \<and> 0 \<le> am_editedPrice a \<and>
    (o3 = Rejects \<or> products wa (pid (am_product a)) = None) \<longrightarrow>
      am_handleSave o3 (a, wa) =
        (a, wa\<lparr>effects := effects wa @
              [CallUpdateDoc (pid (am_product a)) (spec_patch (am_editedQuantity a) (am_editedPrice a)),
               ConsoleError ''Error updating product:'',
               ErrorNotification AM_UpdateFailed]\<rparr>))"
proof (rule conjI[OF _ conjI]; rule impI)
  assume h: "pd_product s = Some p \<and> 0 \<le> pd_editedQuantity s \<and> 0 \<le> pd_editedPrice s \<and>
    (o1 = Rejects \<or> products w (pid p) = None)"
  then have v: "pd_product s = Some p" "0 \<le> pd_editedQuantity s" "0 \<le> pd_editedPrice s"
    by simp_all
  from h have "o1 = Rejects \<or> products w (pid p) = None" by simp
  from updateDoc_fails[OF this]
  obtain err where "updateDoc (pid p) (spec_patch (pd_editedQuantity s) (pd_editedPrice s)) o1 w =
      (Inl err, w\<lparr>effects := effects w @
         [CallUpdateDoc (pid p) (spec_patch (pd_editedQuantity s) (pd_editedPrice s))]\<rparr>)"
    by blast
  then show "pd_handleSave o1 o2 (s, w) =
        (s, w\<lparr>effects := effects w @
              [CallUpdateDoc (pid p) (spec_patch (pd_editedQuantity s) (pd_editedPrice s)),
               ConsoleError ''Error updating product:'',
               ErrorNotification PD_UpdateFailed]\<rparr>)"
    unfolding pd_handleSave_valid[OF v]
    by (simp add: showErrorNotification_def console_error_def emit_def)
next
  assume h: "pd_product s = Some p \<and> 0 \<le> pd_editedQuantity s \<and> 0 \<le> pd_editedPrice s \<and>
    products w (pid p) = Some d"
  then have v: "pd_product s = Some p" "0 \<le> pd_editedQuantity s" "0 \<le> pd_editedPrice s"
    by simp_all
  from h have st: "products w (pid p) = Some d" by simp
  have eq: "pd_handleSave (Resolves t1) Rejects (s, w) =
        (s\<lparr>pd_product := Some (spec_edited p (pd_editedQuantity s) (pd_editedPrice s))\<rparr>,
         w\<lparr>products := (products w)(pid p \<mapsto>
               (spec_edited d (pd_editedQuantity s) (pd_editedPrice s))\<lparr>updatedAt := Time t1\<rparr>),
           effects := effects w @
              [CallUpdateDoc (pid p) (spec_patch (pd_editedQuantity s) (pd_editedPrice s)),
               CallSetDoc (spec_movement p (pd_editedQuantity s) (pd_editedPrice s) ServerTimestamp),
               ConsoleError ''Error updating product:'',
               ErrorNotification PD_UpdateFailed]\<rparr>)"
    unfolding pd_handleSave_valid[OF v] using st
    by (simp add: store_defs spec_patch_def spec_edited_def)
  show "pd_handleSave (Resolves t1) Rejects (s, w) =
        (s\<lparr>pd_product := Some (spec_edited p (pd_editedQuantity s) (pd_editedPrice s))\<rparr>,
         w\<lparr>products := (products w)(pid p \<mapsto>
               (spec_edited d (pd_editedQuantity s) (pd_editedPrice s))\<lparr>updatedAt := Time t1\<rparr>),
           effects := effects w @
              [CallUpdateDoc (pid p) (spec_patch (pd_editedQuantity s) (pd_editedPrice s)),
               CallSetDoc (spec_movement p (pd_editedQuantity s) (pd_editedPrice s) ServerTimestamp),
               ConsoleError ''Error updating product:'',
               ErrorNotification PD_UpdateFailed]\<rparr>) \<and>
      pd_isEditing (fst (pd_handleSave (Resolves t1) Rejects (s, w))) = pd_isEditing s \<and>
      productMovements (snd (pd_handleSave (Resolves t1) Rejects (s, w))) = productMovements w \<and>
      SuccessNotification PD_QuantityUpdated \<notin>
        set (new_effects w (snd (pd_handleSave (Resolves t1) Rejects (s, w))))"
    unfolding eq by (simp add: new_effects_def)
next
  assume h: "0 \<le> am_editedQuantity a \<and> 0 \<le> am_editedPrice a \<and>
    (o3 = Rejects \<or> products wa (pid (am_product a)) = None)"
  then have v: "0 \<le> am_editedQuantity a" "0 \<le> am_editedPrice a"
    by simp_all
  from h have "o3 = Rejects \<or> products wa (pid (am_product a)) = None" by simp
  from updateDoc_fails[OF this]
  obtain err where "updateDoc (pid (am_product a)) (spec_patch (am_editedQuantity a) (am_editedPrice a)) o3 wa =
      (Inl err, wa\<lparr>effects := effects wa @
         [CallUpdateDoc (pid (am_product a)) (spec_patch (am_editedQuantity a) (am_editedPrice a))]\<rparr>)"
    by blast
  then show "am_handleSave o3 (a, wa) =
        (a, wa\<lparr>effects := effects wa @
              [CallUpdateDoc (pid (am_product a)) (spec_patch (am_editedQuantity a) (am_editedPrice a)),
               ConsoleError ''Error updating product:'',
               ErrorNotification AM_UpdateFailed]\<rparr>)"
    unfolding am_handleSave_valid[OF v]
    by (simp add: showErrorNotification_def console_error_def emit_def)
qed

text \<open>
  The edit to quantity 15 at price 120 with the update rejected, with the update
  resolved and the movement write rejected, and in the menu with the update rejected.
\<close>

theorem store_failure_is_contained_witness:
  "pd_product (demo_editing 15 120) = Some demo_product \<and>
   0 \<le> pd_editedQuantity (demo_editing 15 120) \<and>
   0 \<le> pd_editedPrice (demo_editing 15 120) \<and>
   products demo_world (pid demo_product) = Some demo_product \<and>
   pd_handleSave Rejects (Resolves 8) (demo_editing 15 120, demo_world) =
     (demo_editing 15 120,
      demo_world\<lparr>effects :=
         [CallUpdateDoc ''p1'' (spec_patch 15 120),
          ConsoleError ''Error updating product:'',
          ErrorNotification PD_UpdateFailed]\<rparr>) \<and>
   pd_isEditing (fst (pd_handleSave (Resolves 7) Rejects (demo_editing 15 120, demo_world))) = True \<and>
   productMovements (snd (pd_handleSave (Resolves 7) Rejects (demo_editing 15 120, demo_world))) = [] \<and>
   map_option quantity
     (products (snd (pd_handleSave (Resolves 7) Rejects (demo_editing 15 120, demo_world))) ''p1'') =
     Some 15 \<and>
   0 \<le> am_editedQuantity (demo_menu_editing 15 120) \<and>
   0 \<le> am_editedPrice (demo_menu_editing 15 120) \<and>
   am_handleSave Rejects (demo_menu_editing 15 120, demo_world) =
     (demo_menu_editing 15 120,
      demo_world\<lparr>effects :=
         [CallUpdateDoc ''p1'' (spec_patch 15 120),
          ConsoleError ''Error updating product:'',
          ErrorNotification AM_UpdateFailed]\<rparr>)"
proof -
  have h1: "pd_product (demo_editing 15 120) = Some demo_product \<and>
      0 \<le> pd_editedQuantity (demo_editing 15 120) \<and>
      0 \<le> pd_editedPrice (demo_editing 15 120) \<and>
      products demo_world (pid demo_product) = Some demo_product"
    by (simp add: demo_defs)
  have h2: "0 \<le> am_editedQuantity (demo_menu_editing 15 120) \<and>
      0 \<le> am_editedPrice (demo_menu_editing 15 120)"
    by (simp add: demo_defs)
  note r = store_failure_is_contained[of "demo_editing 15 120" demo_product Rejects demo_world
      "Resolves 8" demo_product 7 "demo_menu_editing 15 120" Rejects demo_world]
  from r h1 have a: "pd_handleSave Rejects (Resolves 8) (demo_editing 15 120, demo_world) =
     (demo_editing 15 120,
      demo_world\<lparr>effects :=
         [CallUpdateDoc ''p1'' (spec_patch 15 120),
          ConsoleError ''Error updating product:'',
          ErrorNotification PD_UpdateFailed]\<rparr>)"
    by (simp add: demo_defs)
  from r h1 have eq: "pd_handleSave (Resolves 7) Rejects (demo_editing 15 120, demo_world) =
        ((demo_editing 15 120)\<lparr>pd_product := Some (spec_edited demo_product
             (pd_editedQuantity (demo_editing 15 120)) (pd_editedPrice (demo_editing 15 120)))\<rparr>,
         demo_world\<lparr>products := (products demo_world)(pid demo_product \<mapsto>
               (spec_edited demo_product (pd_editedQuantity (demo_editing 15 120))
                  (pd_editedPrice (demo_editing 15 120)))\<lparr>updatedAt := Time 7\<rparr>),
           effects := effects demo_world @
              [CallUpdateDoc (pid demo_product)
                 (spec_patch (pd_editedQuantity (demo_editing 15 120)) (pd_editedPrice (demo_editing 15 120))),
               CallSetDoc (spec_movement demo_product (pd_editedQuantity (demo_editing 15 120))
                  (pd_editedPrice (demo_editing 15 120)) ServerTimestamp),
               ConsoleError ''Error updating product:'',
               ErrorNotification PD_UpdateFailed]\<rparr>)"
    by blast
  have b: "pd_isEditing (fst (pd_handleSave (Resolves 7) Rejects (demo_editing 15 120, demo_world))) = True \<and>
   productMovements (snd (pd_handleSave (Resolves 7) Rejects (demo_editing 15 120, demo_world))) = [] \<and>
   map_option quantity
     (products (snd (pd_handleSave (Resolves 7) Rejects (demo_editing 15 120, demo_world))) ''p1'') =
     Some 15"
    unfolding eq by (simp add: demo_defs spec_edited_def)
  from r h2 have c: "am_handleSave Rejects (demo_menu_editing 15 120, demo_world) =
     (demo_menu_editing 15 120,
      demo_world\<lparr>effects :=
         [CallUpdateDoc ''p1'' (spec_patch 15 120),
          ConsoleError ''Error updating product:'',
          ErrorNotification AM_UpdateFailed]\<rparr>)"
    by (simp add: demo_defs)
  from h1 h2 a b c show ?thesis by blast
qed

section \<open>The quantity dialogs of the menu\<close>

text \<open>
  Claim C5. Confirming the "add to expense" dialog (for "add to income": the same with
  the income route) with the quantity \<open>q\<close> writes nothing to the store: the handler calls
  the router with the route of the expense creation and the payload of the product and
  \<open>q\<close>, then closes the menu, and does nothing else.
\<close>

theorem quantity_confirm_only_navigates:
  "am_handleExpenseQuantityConfirm q (s, w) =
     (s\<lparr>am_isOpen := False\<rparr>,
      w\<lparr>effects := effects w @
          [Navigate (Path ''/warehouse/expense/new'') (Some (am_product s, q)), OnClose]\<rparr>) \<and>
   am_handleIncomeQuantityConfirm q (s, w) =
     (s\<lparr>am_isOpen := False\<rparr>,
      w\<lparr>effects := effects w @
          [Navigate (Path ''/warehouse/income/new'') (Some (am_product s, q)), OnClose]\<rparr>) \<and>
   products (snd (am_handleExpenseQuantityConfirm q (s, w))) = products w \<and>
   productMovements (snd (am_handleExpenseQuantityConfirm q (s, w))) = productMovements w \<and>
   products (snd (am_handleIncomeQuantityConfirm q (s, w))) = products w \<and>
   productMovements (snd (am_handleIncomeQuantityConfirm q (s, w))) = productMovements w \<and>
   am_phase (fst (am_handleExpenseQuantityConfirm q (s, w))) = Closed \<and>
   am_phase (fst (am_handleIncomeQuantityConfirm q (s, w))) = Closed"
  by (simp add: am_handleExpenseQuantityConfirm_def am_handleIncomeQuantityConfirm_def
        am_onClose_def navigate_def emit_def am_phase_def)

section \<open>Loading the product\<close>

text \<open>
  Claim C10. In the detail view, a read that throws leaves the view in the state that a
  read of an absent product leaves it in: loading is over and the product is as before,
  so a view that had no product renders the not-found screen in both cases. The error is
  only logged on the console; no notification is shown.
\<close>

theorem failed_load_renders_not_found:
  assumes route: "pd_id s = Some i"
    and absent: "products w i = None"
  shows "fst (pd_loadProduct True (s, w0)) = fst (pd_loadProduct False (s, w)) \<and>
     fst (pd_loadProduct True (s, w0)) = s\<lparr>pd_loading := False\<rparr> \<and>
     pd_render (fst (pd_loadProduct True (s, w0))) =
       (if pd_product s = None then NotFoundScreen else DetailsScreen) \<and>
     pd_render (fst (pd_loadProduct True (s, w0))) = pd_render (fst (pd_loadProduct False (s, w))) \<and>
     new_effects w0 (snd (pd_loadProduct True (s, w0))) =
       [CallGetDoc i, ConsoleError ''Error loading product:''] \<and>
     new_effects w (snd (pd_loadProduct False (s, w))) = [CallGetDoc i]"
  using assms
  by (simp add: pd_loadProduct_def store_defs new_effects_def pd_render_def)

text \<open>The view mounted on the id \<open>''p2''\<close>, which the store does not hold.\<close>

theorem failed_load_renders_not_found_witness:
  "pd_id (pd_init (Some ''p2'')) = Some ''p2'' \<and>
   products demo_world ''p2'' = None \<and>
   fst (pd_loadProduct True (pd_init (Some ''p2''), demo_world)) =
     fst (pd_loadProduct False (pd_init (Some ''p2''), demo_world)) \<and>
   pd_product (fst (pd_loadProduct True (pd_init (Some ''p2''), demo_world))) = None \<and>
   pd_render (fst (pd_loadProduct True (pd_init (Some ''p2''), demo_world))) = NotFoundScreen \<and>
   pd_render (fst (pd_loadProduct False (pd_init (Some ''p2''), demo_world))) = NotFoundScreen"
proof -
  have h1: "pd_id (pd_init (Some ''p2'')) = Some ''p2''"
    by (simp add: pd_init_def)
  have h2: "products demo_world ''p2'' = None"
    by (simp add: demo_world_def)
  note r = failed_load_renders_not_found[OF h1 h2, of demo_world]
  from r have same: "fst (pd_loadProduct False (pd_init (Some ''p2''), demo_world)) =
      fst (pd_loadProduct True (pd_init (Some ''p2''), demo_world))"
    by simp
  from r have after: "fst (pd_loadProduct True (pd_init (Some ''p2''), demo_world)) =
      (pd_init (Some ''p2''))\<lparr>pd_loading := False\<rparr>"
    by blast
  from h1 h2 show ?thesis
    unfolding same after by (simp add: pd_init_def pd_render_def)
qed

section \<open>The password challenge\<close>

lemma pd_handleSave_prompt:
  "pd_showPasswordPrompt (fst (pd_handleSave o1 o2 c)) = pd_showPasswordPrompt (fst c)"
  by (cases c) (simp add: pd_handleSave_def store_defs Let_def split: option.splits outcome.splits)

lemma pd_handleSave_editing:
  "pd_isEditing (fst (pd_handleSave o1 o2 c)) \<Longrightarrow> pd_isEditing (fst c)"
  by (cases c)
     (simp add: pd_handleSave_def store_defs Let_def split: option.splits outcome.splits if_splits)

lemma pd_loadProduct_flags:
  "pd_showPasswordPrompt (fst (pd_loadProduct t c)) = pd_showPasswordPrompt (fst c) \<and>
   pd_isEditing (fst (pd_loadProduct t c)) = pd_isEditing (fst c)"
  by (cases c) (simp add: pd_loadProduct_def store_defs Let_def split: option.splits)

text \<open>No handler of the detail view but the prompt's success callback turns edit mode on.\<close>

lemma pd_handle_editing:
  "e \<noteq> PD_PasswordSuccess \<Longrightarrow> pd_isEditing (fst (pd_handle e c)) \<Longrightarrow> pd_isEditing (fst c)"
  by (cases c; cases e)
     (auto simp: pd_handle_def pd_handleEditClick_def pd_loadProduct_flags
           dest: pd_handleSave_editing)

lemma pd_step_editing:
  "e \<noteq> PD_PasswordSuccess \<Longrightarrow> pd_isEditing (fst (pd_step c e)) \<Longrightarrow> pd_isEditing (fst c)"
  by (auto simp: pd_step_def dest: pd_handle_editing split: if_splits)

lemma pd_run_snoc: "pd_run c (es @ [e]) = pd_step (pd_run c es) e"
  by (simp add: pd_run_def)

lemma pd_run_editing:
  "pd_isEditing (fst (pd_run c es)) \<Longrightarrow>
   pd_isEditing (fst c) \<or>
   (\<exists>es1 es2. es = es1 @ PD_PasswordSuccess # es2 \<and>
       pd_enabled (fst (pd_run c es1)) PD_PasswordSuccess)"
proof (induction es rule: rev_induct)
  case Nil
  then show ?case by (simp add: pd_run_def)
next
  case (snoc e es)
  show ?case
  proof (cases "e = PD_PasswordSuccess \<and> pd_enabled (fst (pd_run c es)) PD_PasswordSuccess")
    case True
    then have "es @ [e] = es @ PD_PasswordSuccess # [] \<and>
        pd_enabled (fst (pd_run c es)) PD_PasswordSuccess"
      by simp
    then show ?thesis by blast
  next
    case False
    from snoc.prems have after: "pd_isEditing (fst (pd_step (pd_run c es) e))"
      by (simp add: pd_run_snoc)
    have "pd_isEditing (fst (pd_run c es))"
    proof (cases "e = PD_PasswordSuccess")
      case True
      with False have "\<not> pd_enabled (fst (pd_run c es)) e" by simp
      with after show ?thesis by (simp add: pd_step_def)
    next
      case False
      from this after show ?thesis by (rule pd_step_editing)
    qed
    from snoc.IH[OF this] show ?thesis
    proof
      assume "pd_isEditing (fst c)"
      then show ?thesis by simp
    next
      assume "\<exists>es1 es2. es = es1 @ PD_PasswordSuccess # es2 \<and>
         pd_enabled (fst (pd_run c es1)) PD_PasswordSuccess"
      then obtain es1 es2 where "es = es1 @ PD_PasswordSuccess # es2"
        and en: "pd_enabled (fst (pd_run c es1)) PD_PasswordSuccess"
        by blast
      then have "es @ [e] = es1 @ PD_PasswordSuccess # (es2 @ [e])" by simp
      with en show ?thesis by blast
    qed
  qed
qed

text \<open>The prompt and the edit form are never on the screen together.\<close>

lemma pd_step_locked:
  assumes "\<not> (pd_showPasswordPrompt (fst c) \<and> pd_isEditing (fst c))"
  shows "\<not> (pd_showPasswordPrompt (fst (pd_step c e)) \<and> pd_isEditing (fst (pd_step c e)))"
proof (cases "pd_enabled (fst c) e")
  case False
  with assms show ?thesis by (simp add: pd_step_def)
next
  case True
  obtain s w where c: "c = (s, w)" by (cases c)
  show ?thesis
  proof (cases e)
    case (PD_ClickSave o1 o2)
    with True assms c show ?thesis
      using pd_handleSave_prompt[of o1 o2 c] pd_handleSave_editing[of o1 o2 c]
      by (auto simp: pd_step_def pd_handle_def pd_enabled_def)
  next
    case (PD_Load t)
    with True assms c show ?thesis
      using pd_loadProduct_flags[of t c]
      by (auto simp: pd_step_def pd_handle_def)
  qed (use True assms c in \<open>auto simp: pd_step_def pd_handle_def pd_enabled_def
        pd_handleEditClick_def pd_handlePasswordSuccess_def\<close>)
qed

lemma pd_run_locked:
  assumes "\<not> (pd_showPasswordPrompt (fst c) \<and> pd_isEditing (fst c))"
  shows "\<not> (pd_showPasswordPrompt (fst (pd_run c es)) \<and> pd_isEditing (fst (pd_run c es)))"
  using assms
proof (induction es rule: rev_induct)
  case Nil
  then show ?case by (simp add: pd_run_def)
next
  case (snoc e es)
  then have "\<not> (pd_showPasswordPrompt (fst (pd_run c es)) \<and> pd_isEditing (fst (pd_run c es)))"
    by simp
  then have "\<not> (pd_showPasswordPrompt (fst (pd_step (pd_run c es) e)) \<and>
                pd_isEditing (fst (pd_step (pd_run c es) e)))"
    by (rule pd_step_locked)
  then show ?case by (simp add: pd_run_snoc)
qed

text \<open>The same for the menu.\<close>

lemma am_handleSave_flags:
  "am_flags (fst (am_handleSave o1 c)) = am_flags (fst c)"
  by (cases c)
     (simp add: am_handleSave_def am_onClose_def am_flags_def store_defs Let_def
           split: option.splits outcome.splits)

lemma am_flags_editing: "am_isEditing s = am_flags s ! 7"
  by (simp add: am_flags_def)

lemma am_flags_prompt: "am_showPasswordPrompt s = am_flags s ! 6"
  by (simp add: am_flags_def)

lemma am_handle_editing:
  "e \<noteq> AM_PasswordSuccess \<Longrightarrow> am_isEditing (fst (am_handle e c)) \<Longrightarrow> am_isEditing (fst c)"
proof (cases e)
  case (AM_ClickSave o1)
  assume "am_isEditing (fst (am_handle e c))"
  with AM_ClickSave show ?thesis
    using am_handleSave_flags[of o1 c]
    by (cases c) (simp add: am_handle_def am_flags_editing)
next
  case (AM_ClickAction a)
  assume "am_isEditing (fst (am_handle e c))"
  with AM_ClickAction show ?thesis
    by (cases c; cases a)
       (simp_all add: am_handle_def am_onClick_def am_handleEdit_def am_setShown_def)
next
  case (AM_DialogClose d)
  assume "am_isEditing (fst (am_handle e c))"
  with AM_DialogClose show ?thesis
    by (cases c; cases d) (simp_all add: am_handle_def am_setShown_def)
next
  case (AM_Open remount)
  assume "am_isEditing (fst (am_handle e c))"
  with AM_Open show ?thesis
    by (cases c; cases remount) (simp_all add: am_handle_def am_open_def am_init_def)
qed (cases c; simp add: am_handle_def am_onClose_def
       am_handleExpenseQuantityConfirm_def am_handleIncomeQuantityConfirm_def)+

lemma am_step_editing:
  "e \<noteq> AM_PasswordSuccess \<Longrightarrow> am_isEditing (fst (am_step c e)) \<Longrightarrow> am_isEditing (fst c)"
  by (auto simp: am_step_def dest: am_handle_editing split: if_splits)

lemma am_run_snoc: "am_run c (es @ [e]) = am_step (am_run c es) e"
  by (simp add: am_run_def)

lemma am_run_editing:
  "am_isEditing (fst (am_run c es)) \<Longrightarrow>
   am_isEditing (fst c) \<or>
   (\<exists>es1 es2. es = es1 @ AM_PasswordSuccess # es2 \<and>
       am_rendered (fst (am_run c es1)) AM_PasswordSuccess)"
proof (induction es rule: rev_induct)
  case Nil
  then show ?case by (simp add: am_run_def)
next
  case (snoc e es)
  show ?case
  proof (cases "e = AM_PasswordSuccess \<and> am_rendered (fst (am_run c es)) AM_PasswordSuccess")
    case True
    then have "es @ [e] = es @ AM_PasswordSuccess # [] \<and>
        am_rendered (fst (am_run c es)) AM_PasswordSuccess"
      by simp
    then show ?thesis by blast
  next
    case False
    from snoc.prems have after: "am_isEditing (fst (am_step (am_run c es) e))"
      by (simp add: am_run_snoc)
    have "am_isEditing (fst (am_run c es))"
    proof (cases "e = AM_PasswordSuccess")
      case True
      with False have "\<not> am_rendered (fst (am_run c es)) e" by simp
      with after show ?thesis by (simp add: am_step_def)
    next
      case False
      from this after show ?thesis by (rule am_step_editing)
    qed
    from snoc.IH[OF this] show ?thesis
    proof
      assume "am_isEditing (fst c)"
      then show ?thesis by simp
    next
      assume "\<exists>es1 es2. es = es1 @ AM_PasswordSuccess # es2 \<and>
         am_rendered (fst (am_run c es1)) AM_PasswordSuccess"
      then obtain es1 es2 where "es = es1 @ AM_PasswordSuccess # es2"
        and en: "am_rendered (fst (am_run c es1)) AM_PasswordSuccess"
        by blast
      then have "es @ [e] = es1 @ AM_PasswordSuccess # (es2 @ [e])" by simp
      with en show ?thesis by blast
    qed
  qed
qed

lemma am_step_locked:
  assumes "\<not> (am_showPasswordPrompt (fst c) \<and> am_isEditing (fst c))"
  shows "\<not> (am_showPasswordPrompt (fst (am_step c e)) \<and> am_isEditing (fst (am_step c e)))"
proof (cases "am_rendered (fst c) e")
  case False
  with assms show ?thesis by (simp add: am_step_def)
next
  case True
  obtain s w where c: "c = (s, w)" by (cases c)
  show ?thesis
  proof (cases e)
    case (AM_ClickSave o1)
    with True assms c show ?thesis
      using am_handleSave_flags[of o1 c]
      by (simp add: am_step_def am_handle_def am_flags_editing am_flags_prompt)
  next
    case (AM_ClickAction a)
    with True assms c show ?thesis
      by (cases a) (simp_all add: am_step_def am_handle_def am_rendered_def am_onClick_def
            am_handleEdit_def am_setShown_def)
  next
    case (AM_DialogClose d)
    with True assms c show ?thesis
      by (cases d) (simp_all add: am_step_def am_handle_def am_setShown_def)
  next
    case (AM_Open remount)
    with True assms c show ?thesis
      by (cases remount) (simp_all add: am_step_def am_handle_def am_open_def am_init_def)
  qed (use True assms c in \<open>auto simp: am_step_def am_handle_def am_rendered_def
        am_handlePasswordSuccess_def am_onClose_def
        am_handleExpenseQuantityConfirm_def am_handleIncomeQuantityConfirm_def\<close>)
qed

lemma am_run_locked:
  assumes "\<not> (am_showPasswordPrompt (fst c) \<and> am_isEditing (fst c))"
  shows "\<not> (am_showPasswordPrompt (fst (am_run c es)) \<and> am_isEditing (fst (am_run c es)))"
  using assms
proof (induction es rule: rev_induct)
  case Nil
  then show ?case by (simp add: am_run_def)
next
  case (snoc e es)
  then have "\<not> (am_showPasswordPrompt (fst (am_run c es)) \<and> am_isEditing (fst (am_run c es)))"
    by simp
  then have "\<not> (am_showPasswordPrompt (fst (am_step (am_run c es) e)) \<and>
                am_isEditing (fst (am_step (am_run c es) e)))"
    by (rule am_step_locked)
  then show ?case by (simp add: am_run_snoc)
qed

text \<open>
  Claim C6. In both components edit mode is entered only by a successful password
  challenge:
  \<^item> no handler but the prompt's success callback turns \<^verbatim>\<open>isEditing\<close> on;
  \<^item> after any sequence of events from the state at mount, if the component is in edit
    mode then the sequence holds a success callback of the prompt, made while the prompt
    was rendered;
  \<^item> while the prompt is shown the fields are read-only, and they are still read-only
    after the prompt is dismissed. A failed challenge that is not dismissed is no event
    of the component at all.
\<close>

theorem edit_mode_only_by_password_success:
  "(e \<noteq> PD_PasswordSuccess \<and> pd_isEditing (fst (pd_handle e c)) \<longrightarrow> pd_isEditing (fst c)) \<and>
   (pd_isEditing (fst (pd_run (pd_init i, w) es)) \<longrightarrow>
      (\<exists>es1 es2. es = es1 @ PD_PasswordSuccess # es2 \<and>
          pd_enabled (fst (pd_run (pd_init i, w) es1)) PD_PasswordSuccess)) \<and>
   (pd_showPasswordPrompt (fst (pd_run (pd_init i, w) es)) \<longrightarrow>
      \<not> pd_isEditing (fst (pd_run (pd_init i, w) es)) \<and>
      \<not> pd_isEditing (fst (pd_step (pd_run (pd_init i, w) es) PD_PasswordClose))) \<and>
   (ea \<noteq> AM_PasswordSuccess \<and> am_isEditing (fst (am_handle ea ca)) \<longrightarrow> am_isEditing (fst ca)) \<and>
   (am_isEditing (fst (am_run (am_init p, wa) esa)) \<longrightarrow>
      (\<exists>es1 es2. esa = es1 @ AM_PasswordSuccess # es2 \<and>
          am_rendered (fst (am_run (am_init p, wa) es1)) AM_PasswordSuccess)) \<and>
   (am_showPasswordPrompt (fst (am_run (am_init p, wa) esa)) \<longrightarrow>
      \<not> am_isEditing (fst (am_run (am_init p, wa) esa)) \<and>
      \<not> am_isEditing (fst (am_step (am_run (am_init p, wa) esa) AM_PasswordClose)))"
proof (intro conjI impI)
  assume "e \<noteq> PD_PasswordSuccess \<and> pd_isEditing (fst (pd_handle e c))"
  then show "pd_isEditing (fst c)" by (auto dest: pd_handle_editing)
next
  assume "pd_isEditing (fst (pd_run (pd_init i, w) es))"
  from pd_run_editing[OF this]
  show "\<exists>es1 es2. es = es1 @ PD_PasswordSuccess # es2 \<and>
          pd_enabled (fst (pd_run (pd_init i, w) es1)) PD_PasswordSuccess"
    by (simp add: pd_init_def)
next
  assume shown: "pd_showPasswordPrompt (fst (pd_run (pd_init i, w) es))"
  have "\<not> (pd_showPasswordPrompt (fst (pd_run (pd_init i, w) es)) \<and>
           pd_isEditing (fst (pd_run (pd_init i, w) es)))"
    by (rule pd_run_locked) (simp add: pd_init_def)
  with shown show ro: "\<not> pd_isEditing (fst (pd_run (pd_init i, w) es))" by simp
  show "\<not> pd_isEditing (fst (pd_step (pd_run (pd_init i, w) es) PD_PasswordClose))"
    using ro pd_step_editing[of PD_PasswordClose "pd_run (pd_init i, w) es"] by auto
next
  assume "ea \<noteq> AM_PasswordSuccess \<and> am_isEditing (fst (am_handle ea ca))"
  then show "am_isEditing (fst ca)" by (auto dest: am_handle_editing)
next
  assume "am_isEditing (fst (am_run (am_init p, wa) esa))"
  from am_run_editing[OF this]
  show "\<exists>es1 es2. esa = es1 @ AM_PasswordSuccess # es2 \<and>
          am_rendered (fst (am_run (am_init p, wa) es1)) AM_PasswordSuccess"
    by (simp add: am_init_def)
next
  assume shown: "am_showPasswordPrompt (fst (am_run (am_init p, wa) esa))"
  have "\<not> (am_showPasswordPrompt (fst (am_run (am_init p, wa) esa)) \<and>
           am_isEditing (fst (am_run (am_init p, wa) esa)))"
    by (rule am_run_locked) (simp add: am_init_def)
  with shown show ro: "\<not> am_isEditing (fst (am_run (am_init p, wa) esa))" by simp
  show "\<not> am_isEditing (fst (am_step (am_run (am_init p, wa) esa) AM_PasswordClose))"
    using ro am_step_editing[of AM_PasswordClose "am_run (am_init p, wa) esa"] by auto
qed

lemmas pd_eval = pd_run_def pd_step_def pd_enabled_def pd_render_def pd_handle_def
  pd_loadProduct_def pd_handleEditClick_def pd_handlePasswordSuccess_def pd_init_def
  getDoc_def emit_def demo_world_def demo_product_def or_zero_def Let_def

lemmas am_eval = am_run_def am_step_def am_rendered_def am_handle_def am_onClick_def
  am_handleEdit_def am_handlePasswordSuccess_def am_open_def am_onClose_def am_setShown_def
  am_shown_def am_init_def emit_def demo_world_def demo_product_def or_zero_def

text \<open>
  The edit button followed by the prompt succeeding, the edit button followed by the
  prompt dismissed, and a change of a field while editing, in both components.
\<close>

theorem edit_mode_only_by_password_success_witness:
  "pd_isEditing (fst (pd_run (pd_init (Some ''p1''), demo_world)
       [PD_Load False, PD_ClickEdit, PD_PasswordSuccess])) \<and>
   (\<exists>es1 es2. [PD_Load False, PD_ClickEdit, PD_PasswordSuccess] = es1 @ PD_PasswordSuccess # es2 \<and>
       pd_enabled (fst (pd_run (pd_init (Some ''p1''), demo_world) es1)) PD_PasswordSuccess) \<and>
   pd_showPasswordPrompt (fst (pd_run (pd_init (Some ''p1''), demo_world)
       [PD_Load False, PD_ClickEdit])) \<and>
   \<not> pd_isEditing (fst (pd_step (pd_run (pd_init (Some ''p1''), demo_world)
       [PD_Load False, PD_ClickEdit]) PD_PasswordClose)) \<and>
   PD_ChangeQuantity (Some 3) \<noteq> PD_PasswordSuccess \<and>
   pd_isEditing (fst (pd_handle (PD_ChangeQuantity (Some 3)) (demo_editing 15 120, demo_world))) \<and>
   pd_isEditing (demo_editing 15 120) \<and>
   am_isEditing (fst (am_run (am_init demo_product, demo_world)
       [AM_Open False, AM_ClickAction Edit, AM_PasswordSuccess])) \<and>
   (\<exists>es1 es2. [AM_Open False, AM_ClickAction Edit, AM_PasswordSuccess] = es1 @ AM_PasswordSuccess # es2 \<and>
       am_rendered (fst (am_run (am_init demo_product, demo_world) es1)) AM_PasswordSuccess) \<and>
   am_showPasswordPrompt (fst (am_run (am_init demo_product, demo_world)
       [AM_Open False, AM_ClickAction Edit])) \<and>
   \<not> am_isEditing (fst (am_step (am_run (am_init demo_product, demo_world)
       [AM_Open False, AM_ClickAction Edit]) AM_PasswordClose)) \<and>
   AM_ChangePrice None \<noteq> AM_PasswordSuccess \<and>
   am_isEditing (fst (am_handle (AM_ChangePrice None) (demo_menu_editing 15 120, demo_world))) \<and>
   am_isEditing (demo_menu_editing 15 120)"
proof -
  have h1: "pd_isEditing (fst (pd_run (pd_init (Some ''p1''), demo_world)
       [PD_Load False, PD_ClickEdit, PD_PasswordSuccess]))"
    by (simp add: pd_eval)
  have h2: "pd_showPasswordPrompt (fst (pd_run (pd_init (Some ''p1''), demo_world)
       [PD_Load False, PD_ClickEdit]))"
    by (simp add: pd_eval)
  have h3: "PD_ChangeQuantity (Some 3) \<noteq> PD_PasswordSuccess \<and>
      pd_isEditing (fst (pd_handle (PD_ChangeQuantity (Some 3)) (demo_editing 15 120, demo_world)))"
    by (simp add: pd_handle_def demo_editing_def pd_init_def)
  have h4: "am_isEditing (fst (am_run (am_init demo_product, demo_world)
       [AM_Open False, AM_ClickAction Edit, AM_PasswordSuccess]))"
    by (simp add: am_eval)
  have h5: "am_showPasswordPrompt (fst (am_run (am_init demo_product, demo_world)
       [AM_Open False, AM_ClickAction Edit]))"
    by (simp add: am_eval)
  have h6: "AM_ChangePrice None \<noteq> AM_PasswordSuccess \<and>
      am_isEditing (fst (am_handle (AM_ChangePrice None) (demo_menu_editing 15 120, demo_world)))"
    by (simp add: am_handle_def demo_menu_editing_def am_init_def)
  note r1 = edit_mode_only_by_password_success[of "PD_ChangeQuantity (Some 3)"
      "(demo_editing 15 120, demo_world)" "Some ''p1''" demo_world
      "[PD_Load False, PD_ClickEdit, PD_PasswordSuccess]"
      "AM_ChangePrice None" "(demo_menu_editing 15 120, demo_world)" demo_product demo_world
      "[AM_Open False, AM_ClickAction Edit, AM_PasswordSuccess]"]
  note r2 = edit_mode_only_by_password_success[of "PD_ChangeQuantity (Some 3)"
      "(demo_editing 15 120, demo_world)" "Some ''p1''" demo_world
      "[PD_Load False, PD_ClickEdit]"
      "AM_ChangePrice None" "(demo_menu_editing 15 120, demo_world)" demo_product demo_world
      "[AM_Open False, AM_ClickAction Edit]"]
  from r1 h1 have a: "\<exists>es1 es2.
       [PD_Load False, PD_ClickEdit, PD_PasswordSuccess] = es1 @ PD_PasswordSuccess # es2 \<and>
       pd_enabled (fst (pd_run (pd_init (Some ''p1''), demo_world) es1)) PD_PasswordSuccess"
    by blast
  from r2 h2 have b: "\<not> pd_isEditing (fst (pd_step (pd_run (pd_init (Some ''p1''), demo_world)
       [PD_Load False, PD_ClickEdit]) PD_PasswordClose))"
    by blast
  from r1 h3 have c: "pd_isEditing (demo_editing 15 120)"
    by simp
  from r1 h4 have d: "\<exists>es1 es2.
       [AM_Open False, AM_ClickAction Edit, AM_PasswordSuccess] = es1 @ AM_PasswordSuccess # es2 \<and>
       am_rendered (fst (am_run (am_init demo_product, demo_world) es1)) AM_PasswordSuccess"
    by blast
  from r2 h5 have e: "\<not> am_isEditing (fst (am_step (am_run (am_init demo_product, demo_world)
       [AM_Open False, AM_ClickAction Edit]) AM_PasswordClose))"
    by blast
  from r1 h6 have f: "am_isEditing (demo_menu_editing 15 120)"
    by simp
  from h1 h2 h3 h4 h5 h6 a b c d e f show ?thesis by simp
qed

section \<open>The state machine of the menu\<close>








text \<open>
  What the hypothesis on the open leaves out. The outer close clears only the prop: a
  menu closed from the inline form keeps \<^verbatim>\<open>isEditing\<close>. Mounted afresh it opens in
  MenuOpen; opened as the kept instance it shows the inline form again.
\<close>

lemma kept_instance_opens_in_its_flags:
  "am_phase (fst (am_run (am_init demo_product, demo_world)
     [AM_Open False, AM_ClickAction Edit, AM_PasswordSuccess, AM_ClickSave (Resolves 7)])) = Closed \<and>
   am_phase (fst (am_run (am_init demo_product, demo_world)
     [AM_Open False, AM_ClickAction Edit, AM_PasswordSuccess, AM_ClickSave (Resolves 7),
      AM_Open True])) = MenuOpen \<and>
   am_phase (fst (am_run (am_init demo_product, demo_world)
     [AM_Open False, AM_ClickAction Edit, AM_PasswordSuccess, AM_ClickSave (Resolves 7),
      AM_Open False])) = EditingInline"
  by (simp add: am_eval am_dialogShown_def am_phase_def
        am_handleSave_def updateDoc_def showSuccessNotification_def Let_def)

end
